theory Spec2Isabelle
  imports Complex_Main "HOL-Library.AList"
begin

section \<open>JavaScript numbers\<close>

text \<open>
  The portfolio code computes with JavaScript numbers. A number is modelled as an exact
  real, or one of the three non-finite values the code can produce by dividing by zero or
  by reading a missing numeric field (\<open>undefined\<close> behaves as \<open>NaN\<close> in every arithmetic
  operation and comparison used here). Two features of IEEE doubles are idealised:
  arithmetic on finite values is exact (no rounding, no overflow), and zero has no sign, so
  that \<open>x / 0\<close> has the sign of \<open>x\<close>: the result of the code for the divisor \<open>+0\<close>,
  the only zero that positive prices and sizes produce. The theorems stated for the claims
  do not rest on the exactness: they relate values that the code computes by the same
  expressions, use the order of numbers only through steps that rounding preserves, and
  are evaluated at inputs where rounding does not change the outcome. The lemmas of the
  subsection on long positions are the exception and say so.
\<close>

datatype jsnum = Fin real | PInf | NInf | NaN

fun jneg :: "jsnum \<Rightarrow> jsnum" where
  "jneg (Fin a) = Fin (- a)"
| "jneg PInf = NInf"
| "jneg NInf = PInf"
| "jneg NaN = NaN"

fun jadd :: "jsnum \<Rightarrow> jsnum \<Rightarrow> jsnum" where
  "jadd NaN _ = NaN"
| "jadd _ NaN = NaN"
| "jadd (Fin a) (Fin b) = Fin (a + b)"
| "jadd PInf NInf = NaN"
| "jadd NInf PInf = NaN"
| "jadd PInf _ = PInf"
| "jadd _ PInf = PInf"
| "jadd NInf _ = NInf"
| "jadd _ NInf = NInf"

definition jsub :: "jsnum \<Rightarrow> jsnum \<Rightarrow> jsnum" where
  "jsub a b = jadd a (jneg b)"

fun jmul :: "jsnum \<Rightarrow> jsnum \<Rightarrow> jsnum" where
  "jmul NaN _ = NaN"
| "jmul _ NaN = NaN"
| "jmul (Fin a) (Fin b) = Fin (a * b)"
| "jmul (Fin a) PInf = (if a = 0 then NaN else if 0 < a then PInf else NInf)"
| "jmul (Fin a) NInf = (if a = 0 then NaN else if 0 < a then NInf else PInf)"
| "jmul PInf (Fin b) = (if b = 0 then NaN else if 0 < b then PInf else NInf)"
| "jmul NInf (Fin b) = (if b = 0 then NaN else if 0 < b then NInf else PInf)"
| "jmul PInf PInf = PInf"
| "jmul PInf NInf = NInf"
| "jmul NInf PInf = NInf"
| "jmul NInf NInf = PInf"

fun jdiv :: "jsnum \<Rightarrow> jsnum \<Rightarrow> jsnum" where
  "jdiv NaN _ = NaN"
| "jdiv _ NaN = NaN"
| "jdiv (Fin a) (Fin b) =
     (if b \<noteq> 0 then Fin (a / b)
      else if a = 0 then NaN else if 0 < a then PInf else NInf)"
| "jdiv (Fin a) PInf = Fin 0"
| "jdiv (Fin a) NInf = Fin 0"
| "jdiv PInf (Fin b) = (if 0 \<le> b then PInf else NInf)"
| "jdiv NInf (Fin b) = (if 0 \<le> b then NInf else PInf)"
| "jdiv _ _ = NaN"

fun jabs :: "jsnum \<Rightarrow> jsnum" where
  "jabs (Fin a) = Fin \<bar>a\<bar>"
| "jabs PInf = PInf"
| "jabs NInf = PInf"
| "jabs NaN = NaN"

text \<open>Comparisons: every comparison with \<open>NaN\<close> is false.\<close>

fun jle :: "jsnum \<Rightarrow> jsnum \<Rightarrow> bool" where
  "jle NaN _ = False"
| "jle _ NaN = False"
| "jle (Fin a) (Fin b) = (a \<le> b)"
| "jle NInf _ = True"
| "jle _ PInf = True"
| "jle _ _ = False"

fun jlt :: "jsnum \<Rightarrow> jsnum \<Rightarrow> bool" where
  "jlt NaN _ = False"
| "jlt _ NaN = False"
| "jlt (Fin a) (Fin b) = (a < b)"
| "jlt NInf NInf = False"
| "jlt NInf _ = True"
| "jlt PInf _ = False"
| "jlt (Fin a) PInf = True"
| "jlt (Fin a) NInf = False"

definition jge :: "jsnum \<Rightarrow> jsnum \<Rightarrow> bool" where
  "jge a b = jle b a"

definition jgt :: "jsnum \<Rightarrow> jsnum \<Rightarrow> bool" where
  "jgt a b = jlt b a"

text \<open>\<open>Math.min\<close> and \<open>Math.max\<close> return \<open>NaN\<close> when an argument is \<open>NaN\<close>.\<close>

fun jmin :: "jsnum \<Rightarrow> jsnum \<Rightarrow> jsnum" where
  "jmin NaN _ = NaN"
| "jmin _ NaN = NaN"
| "jmin a b = (if jle a b then a else b)"

fun jmax :: "jsnum \<Rightarrow> jsnum \<Rightarrow> jsnum" where
  "jmax NaN _ = NaN"
| "jmax _ NaN = NaN"
| "jmax a b = (if jle a b then b else a)"

text \<open>Truthiness of a number: \<open>0\<close> and \<open>NaN\<close> are falsy.\<close>

fun truthy :: "jsnum \<Rightarrow> bool" where
  "truthy (Fin a) = (a \<noteq> 0)"
| "truthy PInf = True"
| "truthy NInf = True"
| "truthy NaN = False"

text \<open>\<open>x || d\<close> on an optional configuration number (\<open>None\<close> is a missing field).\<close>

fun or_default :: "jsnum option \<Rightarrow> jsnum \<Rightarrow> jsnum" where
  "or_default None d = d"
| "or_default (Some x) d = (if truthy x then x else d)"

fun is_fin :: "jsnum \<Rightarrow> bool" where
  "is_fin (Fin _) = True"
| "is_fin _ = False"

section \<open>PortfolioManager\<close>

text \<open>
  \<open>moment()\<close> values are milliseconds since the epoch. Position ids
  (\<open>generatePositionId\<close>: clock and random digits) and the clock are inputs of the
  operations that read them; one call reads one clock value. Emitted events are appended
  to a log, without the portfolio summary that two of them carry; listeners are not part
  of the class and are not modelled. Symbols, strategies and sides are strings.
\<close>

record signal =
  sg_symbol :: string
  sg_strategy :: string
  sg_side :: string
  sg_price :: jsnum
  sg_stopLoss :: jsnum
  sg_takeProfit :: jsnum

record position =
  pid :: string
  symbol :: string
  strategy :: string
  side :: string
  entryPrice :: jsnum
  psize :: jsnum
  timestamp :: int
  stopLoss :: jsnum
  takeProfit :: jsnum
  status :: string
  unrealizedPnL :: jsnum
  maxDrawdown :: jsnum
  maxProfit :: jsnum

record trade = position +
  closePrice :: jsnum
  closeTimestamp :: int
  realizedPnL :: jsnum
  reason :: string
  duration :: int

record checks =
  ck_maxPositions :: bool
  ck_correlation :: bool
  ck_riskBudget :: bool
  ck_capital :: bool

datatype pm_event =
    PositionRejected string string checks
  | PositionOpened position
  | PositionClosed trade
  | PositionsUpdated
  | PartialProfitSuggestion position jsnum
  | PortfolioRebalanced

record config =
  cfg_initialCapital :: "jsnum option"
  cfg_maxRiskPerTrade :: "jsnum option"
  cfg_maxPortfolioRisk :: "jsnum option"
  cfg_maxOpenPositions :: "jsnum option"
  cfg_correlationThreshold :: "jsnum option"

text \<open>
  \<open>positions\<close> is a JavaScript \<open>Map\<close>: an association list in insertion order, where
  \<open>set\<close> replaces the value of a present key in place and appends a new key
  (\<open>AList.update\<close>), \<open>delete\<close> removes the key (\<open>AList.delete\<close>) and \<open>get\<close> is
  \<open>map_of\<close>.
\<close>

record pm =
  initialCapital :: jsnum
  currentCapital :: jsnum
  positions :: "(string \<times> position) list"
  closedTrades :: "trade list"
  maxRiskPerTrade :: jsnum
  maxPortfolioRisk :: jsnum
  maxOpenPositions :: jsnum
  correlationThreshold :: jsnum
  dailyPnL :: "jsnum list"
  events :: "pm_event list"

definition new_pm :: "config \<Rightarrow> pm" where
  "new_pm c =
     (let ic = or_default (cfg_initialCapital c) (Fin 10000) in
      \<lparr> initialCapital = ic,
        currentCapital = ic,
        positions = [],
        closedTrades = [],
        maxRiskPerTrade = or_default (cfg_maxRiskPerTrade c) (Fin (2 / 100)),
        maxPortfolioRisk = or_default (cfg_maxPortfolioRisk c) (Fin (10 / 100)),
        maxOpenPositions = or_default (cfg_maxOpenPositions c) (Fin 5),
        correlationThreshold = or_default (cfg_correlationThreshold c) (Fin (7 / 10)),
        dailyPnL = [],
        events = [] \<rparr>)"

definition default_config :: config where
  "default_config =
     \<lparr> cfg_initialCapital = None, cfg_maxRiskPerTrade = None, cfg_maxPortfolioRisk = None,
       cfg_maxOpenPositions = None, cfg_correlationThreshold = None \<rparr>"

definition emit :: "pm_event \<Rightarrow> pm \<Rightarrow> pm" where
  "emit e s = s\<lparr>events := events s @ [e]\<rparr>"

definition getAvailableCapital :: "pm \<Rightarrow> jsnum" where
  "getAvailableCapital s = currentCapital s"

definition getCurrentPortfolioRisk :: "pm \<Rightarrow> jsnum" where
  "getCurrentPortfolioRisk s =
     foldl (\<lambda>risk pos. jadd risk (jdiv (jabs (jsub (entryPrice pos) (stopLoss pos))) (entryPrice pos)))
       (Fin 0) (map snd (positions s))"

definition getOpenPositionsValue :: "pm \<Rightarrow> jsnum" where
  "getOpenPositionsValue s =
     foldl (\<lambda>total pos. jadd total (jmul (psize pos) (entryPrice pos)))
       (Fin 0) (map snd (positions s))"

definition getTotalPortfolioValue :: "pm \<Rightarrow> jsnum" where
  "getTotalPortfolioValue s = jadd (currentCapital s) (getOpenPositionsValue s)"

text \<open>\<open>String.prototype.replace\<close> with a string pattern: the first occurrence only.\<close>

fun replace_first :: "string \<Rightarrow> string \<Rightarrow> string \<Rightarrow> string" where
  "replace_first pat rep [] = (if pat = [] then rep else [])"
| "replace_first pat rep (c # cs) =
     (if take (length pat) (c # cs) = pat then rep @ drop (length pat) (c # cs)
      else c # replace_first pat rep cs)"

text \<open>
  The table lookup \<open>correlationGroups[baseSymbol] || []\<close> is modelled for symbols that do
  not name a member of \<open>Object.prototype\<close>.
\<close>

definition getCorrelatedSymbols :: "string \<Rightarrow> string list" where
  "getCorrelatedSymbols symb =
     (let baseSymbol = replace_first ''/USD'' '''' (replace_first ''/USDT'' '''' symb) in
      if baseSymbol = ''BTC'' then [''ETH'', ''LTC'', ''BCH'']
      else if baseSymbol = ''ETH'' then [''BTC'', ''ADA'', ''DOT'']
      else if baseSymbol = ''ADA'' then [''ETH'', ''DOT'', ''SOL'']
      else if baseSymbol = ''DOT'' then [''ETH'', ''ADA'', ''LINK'']
      else [])"

definition checkCorrelationLimit :: "pm \<Rightarrow> string \<Rightarrow> bool" where
  "checkCorrelationLimit s symb =
     (let correlatedSymbols = getCorrelatedSymbols symb;
          correlatedPositions = filter (\<lambda>pos. symbol pos \<in> set correlatedSymbols) (map snd (positions s))
      in length correlatedPositions < 2)"

definition checkRiskBudget :: "pm \<Rightarrow> string \<Rightarrow> jsnum \<Rightarrow> bool" where
  "checkRiskBudget s strat currentPrice =
     (let currentRisk = getCurrentPortfolioRisk s;
          newTradeRisk = maxRiskPerTrade s
      in jle (jadd currentRisk newTradeRisk) (maxPortfolioRisk s))"

definition compute_checks :: "pm \<Rightarrow> string \<Rightarrow> string \<Rightarrow> jsnum \<Rightarrow> checks" where
  "compute_checks s symb strat currentPrice =
     \<lparr> ck_maxPositions = jlt (Fin (real (length (positions s)))) (maxOpenPositions s),
       ck_correlation = checkCorrelationLimit s symb,
       ck_riskBudget = checkRiskBudget s strat currentPrice,
       ck_capital = jgt (getAvailableCapital s) (Fin 0) \<rparr>"

definition canOpenPosition :: "pm \<Rightarrow> string \<Rightarrow> string \<Rightarrow> jsnum \<Rightarrow> bool \<times> pm" where
  "canOpenPosition s symb strat currentPrice =
     (let cks = compute_checks s symb strat currentPrice;
          canOpen = (ck_maxPositions cks \<and> ck_correlation cks \<and> ck_riskBudget cks \<and> ck_capital cks)
      in (canOpen, if \<not> canOpen then emit (PositionRejected symb strat cks) s else s))"

definition calculatePositionSize :: "pm \<Rightarrow> signal \<Rightarrow> jsnum" where
  "calculatePositionSize s sg =
     (let riskAmount = jmul (currentCapital s) (maxRiskPerTrade s);
          stopDistance = jdiv (jabs (jsub (sg_price sg) (sg_stopLoss sg))) (sg_price sg);
          positionValue = jdiv riskAmount stopDistance;
          maxPositionValue = jmul (getAvailableCapital s) (Fin (8 / 10));
          positionValue = jmin positionValue maxPositionValue
      in jdiv positionValue (sg_price sg))"

text \<open>
  \<open>openPosition\<close> returns \<open>false\<close> (\<open>None\<close>) when admission fails, else the new position.
\<close>

definition openPosition :: "pm \<Rightarrow> string \<Rightarrow> int \<Rightarrow> signal \<Rightarrow> position option \<times> pm" where
  "openPosition s new_id now sg =
     (case canOpenPosition s (sg_symbol sg) (sg_strategy sg) (sg_price sg) of
        (False, s1) \<Rightarrow> (None, s1)
      | (True, s1) \<Rightarrow>
          (let positionSize = calculatePositionSize s1 sg;
               p = \<lparr> pid = new_id, symbol = sg_symbol sg, strategy = sg_strategy sg,
                     side = sg_side sg, entryPrice = sg_price sg, psize = positionSize,
                     timestamp = now, stopLoss = sg_stopLoss sg, takeProfit = sg_takeProfit sg,
                     status = ''open'', unrealizedPnL = Fin 0, maxDrawdown = Fin 0,
                     maxProfit = Fin 0 \<rparr>;
               s2 = s1\<lparr>positions := AList.update (pid p) p (positions s1)\<rparr>;
               s3 = s2\<lparr>currentCapital := jsub (currentCapital s2) (jmul positionSize (sg_price sg))\<rparr>
           in (Some p, emit (PositionOpened p) s3)))"

definition calculatePnL :: "position \<Rightarrow> jsnum \<Rightarrow> jsnum" where
  "calculatePnL p currentPrice =
     (let priceDiff = (if side p = ''long'' then jsub currentPrice (entryPrice p)
                       else jsub (entryPrice p) currentPrice)
      in jmul (psize p) priceDiff)"

text \<open>\<open>moment().diff(t, 'hours')\<close>: whole hours, truncated towards zero.\<close>

definition diff_hours :: "int \<Rightarrow> int \<Rightarrow> int" where
  "diff_hours now t =
     (let d = now - t in if 0 \<le> d then d div 3600000 else - ((- d) div 3600000))"

definition mk_trade :: "position \<Rightarrow> jsnum \<Rightarrow> int \<Rightarrow> jsnum \<Rightarrow> string \<Rightarrow> trade" where
  "mk_trade p cp now pnl rsn =
     position.extend (p\<lparr>status := ''closed''\<rparr>)
       \<lparr> closePrice = cp, closeTimestamp = now, realizedPnL = pnl, reason = rsn,
         duration = diff_hours now (timestamp p) \<rparr>"

text \<open>
  \<open>closePosition\<close> returns \<open>false\<close> (\<open>None\<close>) for an id that is not open, else the trade.
\<close>

definition closePosition :: "pm \<Rightarrow> string \<Rightarrow> jsnum \<Rightarrow> string \<Rightarrow> int \<Rightarrow> trade option \<times> pm" where
  "closePosition s positionId cp rsn now =
     (case map_of (positions s) positionId of
        None \<Rightarrow> (None, s)
      | Some p \<Rightarrow>
          (let pnl = calculatePnL p cp;
               t = mk_trade p cp now pnl rsn;
               s1 = s\<lparr>closedTrades := closedTrades s @ [t]\<rparr>;
               s2 = s1\<lparr>positions := AList.delete positionId (positions s1)\<rparr>;
               s3 = s2\<lparr>currentCapital := jadd (currentCapital s2) (jmul (psize p) cp)\<rparr>
           in (Some t, emit (PositionClosed t) s3)))"

text \<open>The default value of the \<open>reason\<close> parameter.\<close>

definition closePosition_default :: "pm \<Rightarrow> string \<Rightarrow> jsnum \<Rightarrow> int \<Rightarrow> trade option \<times> pm" where
  "closePosition_default s positionId cp now = closePosition s positionId cp ''manual'' now"

definition checkExitConditions :: "pm \<Rightarrow> string \<Rightarrow> position \<Rightarrow> jsnum \<Rightarrow> int \<Rightarrow> pm" where
  "checkExitConditions s positionId p currentPrice now =
     (let (shouldClose, rsn) =
        (if side p = ''long'' then
           (if jle currentPrice (stopLoss p) then (True, ''stop_loss'')
            else if jge currentPrice (takeProfit p) then (True, ''take_profit'')
            else (False, ''''))
         else
           (if jge currentPrice (stopLoss p) then (True, ''stop_loss'')
            else if jle currentPrice (takeProfit p) then (True, ''take_profit'')
            else (False, '''')))
      in if shouldClose then snd (closePosition s positionId currentPrice rsn now) else s)"

text \<open>
  A loop over the entries of the \<open>Map\<close> visits the keys in insertion order and reads the
  live entry of each; the loops below delete no entry other than the one being visited, so
  they are folds over the keys present at the start.
\<close>

definition update_step :: "(string \<rightharpoonup> jsnum) \<Rightarrow> int \<Rightarrow> pm \<Rightarrow> string \<Rightarrow> pm" where
  "update_step marketData now s k =
     (case map_of (positions s) k of
        None \<Rightarrow> s
      | Some p \<Rightarrow>
          (case marketData (symbol p) of
             None \<Rightarrow> s
           | Some currentPrice \<Rightarrow>
               if \<not> truthy currentPrice then s
               else
                 (let unrealized = calculatePnL p currentPrice;
                      pnlPercent = jdiv unrealized (jmul (psize p) (entryPrice p));
                      p1 = p\<lparr>unrealizedPnL := unrealized,
                             maxProfit := jmax (maxProfit p) pnlPercent,
                             maxDrawdown := jmin (maxDrawdown p) pnlPercent\<rparr>;
                      s1 = s\<lparr>positions := AList.update k p1 (positions s)\<rparr>
                  in checkExitConditions s1 k p1 currentPrice now)))"

definition updatePositions :: "pm \<Rightarrow> (string \<rightharpoonup> jsnum) \<Rightarrow> int \<Rightarrow> pm" where
  "updatePositions s marketData now =
     emit PositionsUpdated (foldl (update_step marketData now) s (map fst (positions s)))"

definition pnlPercent_of :: "position \<Rightarrow> jsnum" where
  "pnlPercent_of p = jdiv (unrealizedPnL p) (jmul (psize p) (entryPrice p))"

definition rebalance_step :: "int \<Rightarrow> pm \<Rightarrow> string \<Rightarrow> pm" where
  "rebalance_step now s k =
     (case map_of (positions s) k of
        None \<Rightarrow> s
      | Some p \<Rightarrow>
          (let pnlPercent = pnlPercent_of p;
               s1 = (if jlt pnlPercent (Fin (- (15 / 100)))
                     then snd (closePosition s k (jmul (entryPrice p) (jadd (Fin 1) pnlPercent))
                                 ''rebalance_loss'' now)
                     else s)
           in if jgt pnlPercent (Fin (25 / 100))
              then emit (PartialProfitSuggestion p pnlPercent) s1 else s1))"

definition rebalancePortfolio :: "pm \<Rightarrow> int \<Rightarrow> pm" where
  "rebalancePortfolio s now =
     emit PortfolioRebalanced (foldl (rebalance_step now) s (map fst (positions s)))"

section \<open>TradingViewWebhookReceiver\<close>

text \<open>
  The body of a request is the object that \<open>express.json\<close> parsed. Its fields are
  modelled where they are strings or numbers, \<open>None\<close> standing for a missing field; the
  technical indicators and the metadata that \<open>extractSignalData\<close> copies are left out, and
  so is the branch for text alerts, which the JSON parser never produces. Signal ids
  (\<open>generateSignalId\<close>: clock and random digits) and the two clock readings of a request
  (\<open>Date.now()\<close> in \<open>parseWebhookData\<close> and in \<open>cleanOldSignals\<close>) are inputs. Emitted
  events are appended to a log.
\<close>

record body =
  b_symbol :: "string option"
  b_ticker :: "string option"
  b_action :: "string option"
  b_signal :: "string option"
  b_price :: "jsnum option"
  b_close :: "jsnum option"
  b_strategy :: "string option"
  b_indicator :: "string option"
  b_timeframe :: "string option"
  b_interval :: "string option"
  b_stop_loss :: "jsnum option"
  b_sl :: "jsnum option"
  b_take_profit :: "jsnum option"
  b_tp :: "jsnum option"

record wsignal =
  ws_id :: string
  ws_timestamp :: int
  ws_raw :: body
  ws_symbol :: "string option"
  ws_action :: "string option"
  ws_price :: jsnum
  ws_strategy :: "string option"
  ws_timeframe :: "string option"
  ws_stopLoss :: jsnum
  ws_takeProfit :: jsnum

datatype wevent =
    InvalidSignal wsignal
  | BuySignal wsignal
  | SellSignal wsignal
  | CloseSignal wsignal
  | OtherSignal wsignal

record receiver =
  webhookSecret :: "string option"
  allowedIPs :: "string list"
  recentSignals :: "(string \<times> wsignal) list"
  signalTTL :: int
  emitted :: "wevent list"

record receiver_config =
  rc_webhookSecret :: "string option"
  rc_allowedIPs :: "string list option"
  rc_signalTTL :: "int option"

text \<open>Truthiness of an optional string: a missing field and the empty string are falsy.\<close>

fun str_truthy :: "string option \<Rightarrow> bool" where
  "str_truthy None = False"
| "str_truthy (Some s) = (s \<noteq> [])"

definition str_or :: "string option \<Rightarrow> string option \<Rightarrow> string option" where
  "str_or a b = (if str_truthy a then a else b)"

fun num_truthy :: "jsnum option \<Rightarrow> bool" where
  "num_truthy None = False"
| "num_truthy (Some x) = truthy x"

definition num_or :: "jsnum option \<Rightarrow> jsnum option \<Rightarrow> jsnum option" where
  "num_or a b = (if num_truthy a then a else b)"

text \<open>\<open>parseFloat\<close> of a number is the number; of \<open>undefined\<close> it is \<open>NaN\<close>.\<close>

fun parseFloat :: "jsnum option \<Rightarrow> jsnum" where
  "parseFloat None = NaN"
| "parseFloat (Some x) = x"

definition new_receiver :: "receiver_config \<Rightarrow> string option \<Rightarrow> receiver" where
  "new_receiver c env_secret =
     \<lparr> webhookSecret = str_or (rc_webhookSecret c) env_secret,
       allowedIPs = (case rc_allowedIPs c of None \<Rightarrow> [] | Some ips \<Rightarrow> ips),
       recentSignals = [],
       signalTTL = (case rc_signalTTL c of None \<Rightarrow> 60000
                    | Some ttl \<Rightarrow> if ttl \<noteq> 0 then ttl else 60000),
       emitted = [] \<rparr>"

definition extractSignalData :: "body \<Rightarrow> string \<Rightarrow> int \<Rightarrow> wsignal" where
  "extractSignalData d sid now =
     \<lparr> ws_id = sid, ws_timestamp = now, ws_raw = d,
       ws_symbol = str_or (b_symbol d) (b_ticker d),
       ws_action = str_or (b_action d) (b_signal d),
       ws_price = parseFloat (num_or (b_price d) (b_close d)),
       ws_strategy = str_or (b_strategy d) (b_indicator d),
       ws_timeframe = str_or (b_timeframe d) (b_interval d),
       ws_stopLoss = parseFloat (num_or (b_stop_loss d) (b_sl d)),
       ws_takeProfit = parseFloat (num_or (b_take_profit d) (b_tp d)) \<rparr>"

definition parseWebhookData :: "body \<Rightarrow> string \<Rightarrow> int \<Rightarrow> wsignal" where
  "parseWebhookData d sid now = extractSignalData d sid now"

definition uppercase :: string where
  "uppercase = ''ABCDEFGHIJKLMNOPQRSTUVWXYZ''"

definition lowercase :: string where
  "lowercase = ''abcdefghijklmnopqrstuvwxyz''"

definition is_letter :: "char \<Rightarrow> bool" where
  "is_letter c = (c \<in> set uppercase \<or> c \<in> set lowercase)"

definition lower_chr :: "char \<Rightarrow> char" where
  "lower_chr c = (case map_of (zip uppercase lowercase) c of Some l \<Rightarrow> l | None \<Rightarrow> c)"

definition upper_chr :: "char \<Rightarrow> char" where
  "upper_chr c = (case map_of (zip lowercase uppercase) c of Some u \<Rightarrow> u | None \<Rightarrow> c)"

definition toLowerCase :: "string \<Rightarrow> string" where
  "toLowerCase s = map lower_chr s"

text \<open>
  The test \<open>/^[A-Z]{2,10}(USDT?|BTC|ETH)$/i\<close>: the string splits into two to ten letters
  followed by one of the four suffixes, in any case.
\<close>

definition matches_suffix :: "string \<Rightarrow> string \<Rightarrow> bool" where
  "matches_suffix s suf =
     (length suf \<le> length s
      \<and> map upper_chr (drop (length s - length suf) s) = suf
      \<and> (let pre = take (length s - length suf) s
         in 2 \<le> length pre \<and> length pre \<le> 10 \<and> list_all is_letter pre))"

definition symbol_pattern :: "string \<Rightarrow> bool" where
  "symbol_pattern s = list_ex (matches_suffix s) [''USD'', ''USDT'', ''BTC'', ''ETH'']"

definition isValidSignal :: "wsignal \<Rightarrow> bool" where
  "isValidSignal sg =
     (case (ws_symbol sg, ws_action sg) of
        (Some sy, Some ac) \<Rightarrow>
          if sy = [] \<or> ac = [] then False
          else if \<not> symbol_pattern sy then False
          else if toLowerCase ac \<notin> set [''buy'', ''sell'', ''close'', ''long'', ''short'', ''exit'']
          then False
          else True
      | _ \<Rightarrow> False)"

text \<open>The loop of \<open>isDuplicateSignal\<close> over the entries of the \<open>recentSignals\<close> map.\<close>

fun duplicate_in :: "int \<Rightarrow> wsignal \<Rightarrow> (string \<times> wsignal) list \<Rightarrow> bool" where
  "duplicate_in ttl sg [] = False"
| "duplicate_in ttl sg ((k, existing) # rest) =
     (if ws_symbol existing = ws_symbol sg \<and> ws_action existing = ws_action sg
         \<and> ws_timestamp sg - ws_timestamp existing < ttl
      then True else duplicate_in ttl sg rest)"

definition isDuplicateSignal :: "receiver \<Rightarrow> wsignal \<Rightarrow> bool" where
  "isDuplicateSignal r sg = duplicate_in (signalTTL r) sg (recentSignals r)"

definition cleanOldSignals :: "receiver \<Rightarrow> int \<Rightarrow> receiver" where
  "cleanOldSignals r now =
     r\<lparr>recentSignals :=
         filter (\<lambda>(k, sg). \<not> (now - ws_timestamp sg > signalTTL r * 10)) (recentSignals r)\<rparr>"

definition wemit :: "wevent \<Rightarrow> receiver \<Rightarrow> receiver" where
  "wemit e r = r\<lparr>emitted := emitted r @ [e]\<rparr>"

definition processSignal :: "receiver \<Rightarrow> wsignal \<Rightarrow> int \<Rightarrow> receiver" where
  "processSignal r sg now =
     (let r1 = r\<lparr>recentSignals := AList.update (ws_id sg) sg (recentSignals r)\<rparr>;
          r2 = cleanOldSignals r1 now
      in if \<not> isValidSignal sg then wemit (InvalidSignal sg) r2
         else if ws_action sg = Some ''buy'' \<or> ws_action sg = Some ''long''
           then wemit (BuySignal sg) r2
         else if ws_action sg = Some ''sell'' \<or> ws_action sg = Some ''short''
           then wemit (SellSignal sg) r2
         else if ws_action sg = Some ''close'' \<or> ws_action sg = Some ''exit''
           then wemit (CloseSignal sg) r2
         else wemit (OtherSignal sg) r2)"

text \<open>
  \<open>Buffer.from(s, 'hex')\<close> decodes pairs of hexadecimal digits and stops at the first pair
  that is not one; a trailing single character is dropped.
\<close>

definition hex_value :: "char \<Rightarrow> nat option" where
  "hex_value c =
     map_of (zip ''0123456789abcdefABCDEF''
               [0, 1, 2, 3, 4, 5, 6, 7, 8, 9, 10, 11, 12, 13, 14, 15, 10, 11, 12, 13, 14, 15]) c"

fun hex_bytes :: "string \<Rightarrow> nat list" where
  "hex_bytes (a # b # rest) =
     (case (hex_value a, hex_value b) of
        (Some x, Some y) \<Rightarrow> (16 * x + y) # hex_bytes rest
      | _ \<Rightarrow> [])"
| "hex_bytes _ = []"

datatype js_error = RangeError

text \<open>
  \<open>digest secret payload\<close> stands for the hexadecimal HMAC-SHA256 of
  \<open>JSON.stringify(payload)\<close> under \<open>secret\<close>, computed by the \<open>crypto\<close> library; it is a
  parameter of the model. \<open>crypto.timingSafeEqual\<close> throws a \<open>RangeError\<close> when its
  arguments differ in length.
\<close>

definition verifySignature ::
  "(string \<Rightarrow> body \<Rightarrow> string) \<Rightarrow> receiver \<Rightarrow> body \<Rightarrow> string option \<Rightarrow> js_error + bool" where
  "verifySignature digest r payload signature =
     (if \<not> str_truthy (webhookSecret r) \<or> \<not> str_truthy signature then Inr True
      else
        (let expectedSignature = digest (the (webhookSecret r)) payload;
             a = hex_bytes (the signature);
             b = hex_bytes expectedSignature
         in if length a \<noteq> length b then Inl RangeError else Inr (a = b)))"

record request =
  req_ip :: string
  req_signature :: "string option"
  req_body :: body

datatype response =
    Forbidden
  | InvalidSignature
  | Received string
  | DuplicateIgnored
  | BadRequest
  | ServerError

text \<open>
  The two middlewares of \<open>setupMiddleware\<close>: the IP allow-list (status 403) and, on
  \<open>/webhook\<close>, the signature check (status 401). \<open>None\<close> is a call of \<open>next()\<close>. An
  exception thrown by \<open>verifySignature\<close> reaches the default error handler of the
  framework (status 500).
\<close>

definition middleware ::
  "(string \<Rightarrow> body \<Rightarrow> string) \<Rightarrow> receiver \<Rightarrow> request \<Rightarrow> response option" where
  "middleware digest r req =
     (if allowedIPs r \<noteq> [] \<and> req_ip req \<notin> set (allowedIPs r) then Some Forbidden
      else if str_truthy (webhookSecret r) then
        (case verifySignature digest r (req_body req) (req_signature req) of
           Inl e \<Rightarrow> Some ServerError
         | Inr False \<Rightarrow> Some InvalidSignature
         | Inr True \<Rightarrow> None)
      else None)"

text \<open>
  The route handler of \<open>POST /webhook\<close> (status 200). It answers 400 when parsing or
  processing throws, which no step of the model does.
\<close>

definition webhook_route :: "receiver \<Rightarrow> request \<Rightarrow> string \<Rightarrow> int \<Rightarrow> int \<Rightarrow> response \<times> receiver" where
  "webhook_route r req sid t_parse t_clean =
     (let sg = parseWebhookData (req_body req) sid t_parse
      in if isDuplicateSignal r sg then (DuplicateIgnored, r)
         else (Received (ws_id sg), processSignal r sg t_clean))"

definition post_webhook ::
  "(string \<Rightarrow> body \<Rightarrow> string) \<Rightarrow> receiver \<Rightarrow> request \<Rightarrow> string \<Rightarrow> int \<Rightarrow> int \<Rightarrow> response \<times> receiver" where
  "post_webhook digest r req sid t_parse t_clean =
     (case middleware digest r req of
        Some resp \<Rightarrow> (resp, r)
      | None \<Rightarrow> webhook_route r req sid t_parse t_clean)"

text \<open>A sequence of requests, each with the id and the clock readings it draws.\<close>

fun post_all ::
  "(string \<Rightarrow> body \<Rightarrow> string) \<Rightarrow> receiver \<Rightarrow> (request \<times> string \<times> int \<times> int) list
     \<Rightarrow> response list \<times> receiver" where
  "post_all digest r [] = ([], r)"
| "post_all digest r ((req, sid, t_parse, t_clean) # rest) =
     (let (resp, r1) = post_webhook digest r req sid t_parse t_clean;
          (resps, r2) = post_all digest r1 rest
      in (resp # resps, r2))"

section \<open>Notions used in the statements\<close>

text \<open>The position record that \<open>openPosition\<close> builds for an admitted signal.\<close>

definition new_position :: "pm \<Rightarrow> string \<Rightarrow> int \<Rightarrow> signal \<Rightarrow> position" where
  "new_position s i now sg =
     \<lparr> pid = i, symbol = sg_symbol sg, strategy = sg_strategy sg, side = sg_side sg,
       entryPrice = sg_price sg, psize = calculatePositionSize s sg, timestamp = now,
       stopLoss = sg_stopLoss sg, takeProfit = sg_takeProfit sg, status = ''open'',
       unrealizedPnL = Fin 0, maxDrawdown = Fin 0, maxProfit = Fin 0 \<rparr>"

text \<open>A signal is admitted when \<open>canOpenPosition\<close> returns \<open>true\<close> for it.\<close>

definition admits :: "pm \<Rightarrow> signal \<Rightarrow> bool" where
  "admits s sg = fst (canOpenPosition s (sg_symbol sg) (sg_strategy sg) (sg_price sg))"

text \<open>
  State \<open>s'\<close> is state \<open>s\<close> after position \<open>p\<close>, open under key \<open>i\<close>, has been closed
  at \<open>price\<close> for reason \<open>rsn\<close>: exactly one trade is appended, the position is removed
  and the proceeds are credited.
\<close>

definition closed_with :: "pm \<Rightarrow> pm \<Rightarrow> string \<Rightarrow> position \<Rightarrow> jsnum \<Rightarrow> string \<Rightarrow> int \<Rightarrow> bool" where
  "closed_with s s' i p price rsn now =
     (closedTrades s' = closedTrades s @ [mk_trade p price now (calculatePnL p price) rsn]
      \<and> positions s' = AList.delete i (positions s)
      \<and> currentCapital s' = jadd (currentCapital s) (jmul (psize p) price))"

text \<open>The risk fraction that \<open>getCurrentPortfolioRisk\<close> adds for one position.\<close>

definition positionRisk :: "position \<Rightarrow> jsnum" where
  "positionRisk pos = jdiv (jabs (jsub (entryPrice pos) (stopLoss pos))) (entryPrice pos)"

text \<open>The same fraction computed from the signal a position is opened from.\<close>

definition stop_fraction :: "signal \<Rightarrow> jsnum" where
  "stop_fraction sg = jdiv (jabs (jsub (sg_price sg) (sg_stopLoss sg))) (sg_price sg)"

text \<open>The risk budget holds in a state.\<close>

definition within_risk_budget :: "pm \<Rightarrow> bool" where
  "within_risk_budget s = jle (getCurrentPortfolioRisk s) (maxPortfolioRisk s)"

text \<open>
  A signal with a finite non-zero price and a finite stop whose stop distance fraction is
  at most the per-trade risk of the state.
\<close>

definition tight_stop :: "pm \<Rightarrow> signal \<Rightarrow> bool" where
  "tight_stop s sg =
     (is_fin (sg_price sg) \<and> sg_price sg \<noteq> Fin 0 \<and> is_fin (sg_stopLoss sg)
      \<and> jle (stop_fraction sg) (maxRiskPerTrade s))"

text \<open>
  A sequence of \<open>openPosition\<close> calls, each with the id and the clock value it draws.
\<close>

fun open_all :: "pm \<Rightarrow> (string \<times> int \<times> signal) list \<Rightarrow> pm" where
  "open_all s [] = s"
| "open_all s ((i, now, sg) # rest) = open_all (snd (openPosition s i now sg)) rest"

text \<open>The sum of the realized PnL of the closed trades, as the code's \<open>reduce\<close> sums it.\<close>

definition totalRealizedPnL :: "pm \<Rightarrow> jsnum" where
  "totalRealizedPnL s = foldl (\<lambda>acc t. jadd acc (realizedPnL t)) (Fin 0) (closedTrades s)"

text \<open>The close a rebalance sweep makes for a position it finds below the loss limit.\<close>

definition rebalance_price :: "position \<Rightarrow> jsnum" where
  "rebalance_price p = jmul (entryPrice p) (jadd (Fin 1) (pnlPercent_of p))"

definition rebalance_trade :: "position \<Rightarrow> int \<Rightarrow> trade" where
  "rebalance_trade p now =
     mk_trade p (rebalance_price p) now (calculatePnL p (rebalance_price p)) ''rebalance_loss''"

definition loses :: "position \<Rightarrow> bool" where
  "loses p = jlt (pnlPercent_of p) (Fin (- (15 / 100)))"

definition gains :: "position \<Rightarrow> bool" where
  "gains p = jgt (pnlPercent_of p) (Fin (25 / 100))"

text \<open>
  Modelled from the spec: the set of close reasons the data model declares for a
  \<open>ClosedTrade\<close>; the code declares no such set.
\<close>

definition spec_closeReasons :: "string list" where
  "spec_closeReasons = [''stop_loss'', ''take_profit'', ''manual'', ''rebalance'', ''shutdown'']"

text \<open>Two signals with the same symbol and the same action.\<close>

definition same_key :: "wsignal \<Rightarrow> wsignal \<Rightarrow> bool" where
  "same_key a b = (ws_symbol a = ws_symbol b \<and> ws_action a = ws_action b)"

text \<open>The real value of a finite number (\<open>0\<close> for the others).\<close>

fun num :: "jsnum \<Rightarrow> real" where
  "num (Fin a) = a"
| "num _ = 0"

text \<open>
  The reconciliation of claim C2: \<open>currentCapital\<close> plus the committed capital of the open
  positions equals \<open>initialCapital\<close> plus the realized PnL of the closed trades.
\<close>

definition reconciled :: "pm \<Rightarrow> bool" where
  "reconciled s =
     (jadd (currentCapital s) (getOpenPositionsValue s)
        = jadd (initialCapital s) (totalRealizedPnL s))"

text \<open>
  A portfolio of long positions with finite numbers, distinct keys and a positive finite
  risk fraction.
\<close>

definition long_book :: "pm \<Rightarrow> bool" where
  "long_book s =
     (is_fin (currentCapital s) \<and> is_fin (initialCapital s)
      \<and> is_fin (maxRiskPerTrade s) \<and> 0 < num (maxRiskPerTrade s)
      \<and> list_all (\<lambda>(k, p). is_fin (psize p) \<and> is_fin (entryPrice p) \<and> side p = ''long'')
            (positions s)
      \<and> list_all (\<lambda>t. is_fin (realizedPnL t)) (closedTrades s)
      \<and> distinct (map fst (positions s)))"

text \<open>Calls of \<open>openPosition\<close> and \<open>closePosition\<close>, with the id and clock they draw.\<close>

datatype pm_call =
    Open string int signal
  | Close string jsnum string int

fun run_call :: "pm \<Rightarrow> pm_call \<Rightarrow> pm" where
  "run_call s (Open i now sg) = snd (openPosition s i now sg)"
| "run_call s (Close i cp rsn now) = snd (closePosition s i cp rsn now)"

text \<open>
  A call that opens a long position under a fresh id from a signal with a finite positive
  price and a finite stop, or closes at a finite price.
\<close>

fun long_call :: "pm \<Rightarrow> pm_call \<Rightarrow> bool" where
  "long_call s (Open i now sg) =
     (i \<notin> fst ` set (positions s) \<and> sg_side sg = ''long'' \<and> is_fin (sg_price sg)
      \<and> 0 < num (sg_price sg) \<and> is_fin (sg_stopLoss sg))"
| "long_call s (Close i cp rsn now) = is_fin cp"

fun long_calls :: "pm \<Rightarrow> pm_call list \<Rightarrow> bool" where
  "long_calls s [] = True"
| "long_calls s (c # cs) = (long_call s c \<and> long_calls (run_call s c) cs)"

text \<open>The capital committed to a position with finite size and entry price.\<close>

definition committed :: "position \<Rightarrow> real" where
  "committed p = num (psize p) * num (entryPrice p)"

section \<open>Example data\<close>

definition xau_signal :: signal where
  "xau_signal =
     \<lparr> sg_symbol = ''XAUUSD'', sg_strategy = ''TradingView'', sg_side = ''long'',
       sg_price = Fin 2000, sg_stopLoss = Fin 1990, sg_takeProfit = Fin 2025 \<rparr>"

definition long_position :: position where
  "long_position =
     \<lparr> pid = ''p1'', symbol = ''XAUUSD'', strategy = ''TradingView'', side = ''long'',
       entryPrice = Fin 100, psize = Fin 80, timestamp = 0, stopLoss = Fin 98,
       takeProfit = Fin 106, status = ''open'', unrealizedPnL = Fin 0, maxDrawdown = Fin 0,
       maxProfit = Fin 0 \<rparr>"

definition pm_one_long :: pm where
  "pm_one_long =
     (new_pm default_config)\<lparr>currentCapital := Fin 2000, positions := [(''p1'', long_position)]\<rparr>"

definition short_signal :: signal where
  "short_signal =
     \<lparr> sg_symbol = ''XAUUSD'', sg_strategy = ''TradingView'', sg_side = ''short'',
       sg_price = Fin 100, sg_stopLoss = Fin 110, sg_takeProfit = Fin 80 \<rparr>"

text \<open>A signal that carries no usable stop and no target.\<close>

definition nostop_signal :: signal where
  "nostop_signal =
     \<lparr> sg_symbol = ''XAUUSD'', sg_strategy = ''TradingView'', sg_side = ''long'',
       sg_price = Fin 100, sg_stopLoss = NaN, sg_takeProfit = NaN \<rparr>"

definition wide_signal :: signal where
  "wide_signal =
     \<lparr> sg_symbol = ''XAUUSD'', sg_strategy = ''TradingView'', sg_side = ''long'',
       sg_price = Fin 100, sg_stopLoss = Fin 50, sg_takeProfit = Fin 200 \<rparr>"

definition tight_short_signal :: signal where
  "tight_short_signal =
     \<lparr> sg_symbol = ''EURUSD'', sg_strategy = ''TradingView'', sg_side = ''short'',
       sg_price = Fin 100, sg_stopLoss = Fin 101, sg_takeProfit = Fin 97 \<rparr>"

text \<open>
  The state after a short position is opened at 100 from the default portfolio and closed
  at 90.
\<close>

definition short_closed_lower :: pm where
  "short_closed_lower =
     snd (closePosition (snd (openPosition (new_pm default_config) ''p1'' 0 short_signal))
            ''p1'' (Fin 90) ''manual'' 3600000)"

definition losing_position :: position where
  "losing_position = long_position\<lparr>unrealizedPnL := Fin (- 1600)\<rparr>"

definition winning_position :: position where
  "winning_position = long_position\<lparr>pid := ''p2'', unrealizedPnL := Fin 2400\<rparr>"

definition pm_loser_winner :: pm where
  "pm_loser_winner =
     (new_pm default_config)\<lparr>currentCapital := Fin 2000,
        positions := [(''p1'', losing_position), (''p2'', winning_position)]\<rparr>"

definition empty_body :: body where
  "empty_body =
     \<lparr> b_symbol = None, b_ticker = None, b_action = None, b_signal = None, b_price = None,
       b_close = None, b_strategy = None, b_indicator = None, b_timeframe = None,
       b_interval = None, b_stop_loss = None, b_sl = None, b_take_profit = None,
       b_tp = None \<rparr>"

definition buy_btc :: body where
  "buy_btc = empty_body\<lparr>b_symbol := Some ''BTCUSDT'', b_action := Some ''buy'',
                         b_price := Some (Fin 45000)\<rparr>"

definition buy_unlisted :: body where
  "buy_unlisted = empty_body\<lparr>b_symbol := Some ''XAUEUR'', b_action := Some ''buy''\<rparr>"

definition default_receiver :: receiver where
  "default_receiver =
     new_receiver \<lparr> rc_webhookSecret = None, rc_allowedIPs = None, rc_signalTTL = None \<rparr> None"

definition secured_receiver :: receiver where
  "secured_receiver =
     new_receiver \<lparr> rc_webhookSecret = Some ''s3cret'', rc_allowedIPs = None,
                    rc_signalTTL = None \<rparr> None"

definition unsigned_buy :: request where
  "unsigned_buy = \<lparr> req_ip = ''10.0.0.1'', req_signature = None, req_body = buy_btc \<rparr>"

definition unsigned_unlisted :: request where
  "unsigned_unlisted = \<lparr> req_ip = ''10.0.0.1'', req_signature = None, req_body = buy_unlisted \<rparr>"

definition sell_eth :: body where
  "sell_eth = empty_body\<lparr>b_ticker := Some ''ETHUSDT'', b_signal := Some ''sell''\<rparr>"

definition unsigned_sell :: request where
  "unsigned_sell = \<lparr> req_ip = ''10.0.0.1'', req_signature = None, req_body = sell_eth \<rparr>"

definition hold_btc :: body where
  "hold_btc = empty_body\<lparr>b_symbol := Some ''BTCUSDT'', b_action := Some ''hold''\<rparr>"

section \<open>Basic facts about opening and closing\<close>

lemmas pm_defs = new_pm_def default_config_def Let_def getAvailableCapital_def jsub_def
  jgt_def jge_def

lemma closePosition_open:
  assumes "map_of (positions s) i = Some p"
  shows "closePosition s i cp rsn now =
           (Some (mk_trade p cp now (calculatePnL p cp) rsn),
            emit (PositionClosed (mk_trade p cp now (calculatePnL p cp) rsn))
              (s\<lparr>closedTrades := closedTrades s @ [mk_trade p cp now (calculatePnL p cp) rsn],
                 positions := AList.delete i (positions s),
                 currentCapital := jadd (currentCapital s) (jmul (psize p) cp)\<rparr>))"
  using assms by (simp add: closePosition_def Let_def)

lemma closePosition_unknown:
  assumes "map_of (positions s) i = None"
  shows "closePosition s i cp rsn now = (None, s)"
  using assms by (simp add: closePosition_def)

lemma closed_with_closePosition:
  assumes "map_of (positions s) i = Some p"
  shows "closed_with s (snd (closePosition s i cp rsn now)) i p cp rsn now"
  by (simp add: closePosition_open[OF assms] closed_with_def emit_def)

lemma openPosition_admitted:
  assumes "admits s sg"
  shows "openPosition s i now sg =
           (Some (new_position s i now sg),
            emit (PositionOpened (new_position s i now sg))
              (s\<lparr>positions := AList.update i (new_position s i now sg) (positions s),
                 currentCapital := jsub (currentCapital s)
                    (jmul (calculatePositionSize s sg) (sg_price sg))\<rparr>))"
  using assms
  by (simp add: admits_def openPosition_def canOpenPosition_def new_position_def Let_def
      calculatePositionSize_def getAvailableCapital_def)

lemma openPosition_rejected:
  assumes "\<not> admits s sg"
  shows "openPosition s i now sg =
           (None, emit (PositionRejected (sg_symbol sg) (sg_strategy sg)
                          (compute_checks s (sg_symbol sg) (sg_strategy sg) (sg_price sg))) s)"
  using assms
  by (auto simp add: admits_def openPosition_def canOpenPosition_def Let_def split: bool.splits)

lemma openPosition_Some_admits:
  assumes "openPosition s i now sg = (Some p, s')"
  shows "admits s sg"
  using assms openPosition_rejected[of s sg i now] by (cases "admits s sg") simp_all

lemma admits_capital: "admits s sg \<Longrightarrow> jlt (Fin 0) (currentCapital s)"
  by (simp add: admits_def canOpenPosition_def compute_checks_def Let_def jgt_def
      getAvailableCapital_def)

lemma admits_riskBudget:
  "admits s sg \<Longrightarrow>
     jle (jadd (getCurrentPortfolioRisk s) (maxRiskPerTrade s)) (maxPortfolioRisk s)"
  by (simp add: admits_def canOpenPosition_def compute_checks_def Let_def checkRiskBudget_def)

lemma size_finite:
  assumes "currentCapital s = Fin cap" and "0 < cap" and "maxRiskPerTrade s = Fin r" and "0 < r"
    and "sg_price sg = Fin price" and "price \<noteq> 0" and "sg_stopLoss sg = Fin sl"
  shows "\<exists>z. calculatePositionSize s sg = Fin z"
  using assms
  by (simp add: calculatePositionSize_def getAvailableCapital_def jsub_def Let_def)

lemma admits_default_xau: "admits (new_pm default_config) xau_signal"
  by (simp add: admits_def canOpenPosition_def compute_checks_def checkRiskBudget_def
      checkCorrelationLimit_def getCorrelatedSymbols_def getCurrentPortfolioRisk_def
      pm_defs xau_signal_def)

lemma admits_default_short: "admits (new_pm default_config) short_signal"
  by (simp add: admits_def canOpenPosition_def compute_checks_def checkRiskBudget_def
      checkCorrelationLimit_def getCorrelatedSymbols_def getCurrentPortfolioRisk_def
      pm_defs short_signal_def)

section \<open>Position sizing\<close>

text \<open>
  Claim C5. For finite capital, risk fraction, price and stop with a non-zero price and a
  non-zero stop distance, \<open>calculatePositionSize\<close> returns
  \<open>min (capital * maxRiskPerTrade / (|price - stopLoss| / price)) (0.8 * capital) / price\<close>.
  With capital 10000, risk 0.02, price 2000 and stop 1990 the uncapped size is 20 units and
  the returned size is 4 units.
\<close>

theorem calculatePositionSize_formula:
  assumes "currentCapital s = Fin cap" and "maxRiskPerTrade s = Fin r"
    and "sg_price sg = Fin price" and "sg_stopLoss sg = Fin sl"
    and "price \<noteq> 0" and "sl \<noteq> price"
  shows "calculatePositionSize s sg =
           Fin (min (cap * r / (\<bar>price - sl\<bar> / price)) (8 / 10 * cap) / price)"
  using assms
  by (simp add: calculatePositionSize_def getAvailableCapital_def jsub_def Let_def min_def
      mult.commute)

theorem calculatePositionSize_formula_witness:
  "jdiv (jdiv (jmul (currentCapital (new_pm default_config))
                 (maxRiskPerTrade (new_pm default_config)))
           (jdiv (jabs (jsub (sg_price xau_signal) (sg_stopLoss xau_signal)))
              (sg_price xau_signal)))
      (sg_price xau_signal) = Fin 20
   \<and> calculatePositionSize (new_pm default_config) xau_signal = Fin 4"
proof -
  have "calculatePositionSize (new_pm default_config) xau_signal =
          Fin (min (10000 * (2 / 100) / (\<bar>2000 - 1990\<bar> / 2000)) (8 / 10 * 10000) / 2000)"
    by (rule calculatePositionSize_formula) (simp_all add: pm_defs xau_signal_def)
  then show ?thesis
    by (simp add: pm_defs xau_signal_def)
qed

text \<open>
  At a zero stop distance the quotient of the formula is a division by zero: the code
  computes \<open>Infinity\<close> for it, and the cap decides the size.
\<close>

lemma calculatePositionSize_zero_distance:
  assumes "currentCapital s = Fin cap" and "0 < cap" and "maxRiskPerTrade s = Fin r" and "0 < r"
    and "sg_price sg = Fin price" and "0 < price" and "sg_stopLoss sg = Fin price"
  shows "calculatePositionSize s sg = Fin (8 / 10 * cap / price)"
  using assms
  by (simp add: calculatePositionSize_def getAvailableCapital_def jsub_def Let_def
      mult.commute)

section \<open>Exit conditions\<close>

text \<open>
  Claim C4. For a position \<open>p\<close> open under key \<open>i\<close>, \<open>checkExitConditions\<close> at a price tick
  closes a long position with reason \<open>stop_loss\<close> when \<open>price <= stopLoss\<close>, and with reason
  \<open>take_profit\<close> when the stop is not hit and \<open>price >= takeProfit\<close>; it leaves the state
  unchanged when neither threshold is crossed. The short side is the mirror image. A close
  appends exactly one trade, so one reason fires per tick and the stop loss has priority.
  The realized PnL of the trade is \<open>size * (price - entryPrice)\<close> for a long position and
  \<open>size * (entryPrice - price)\<close> for a short one. The witness is the long position with
  entry 100, stop 98 and target 106 at the ticks 97, 107 and 101.
\<close>

theorem checkExitConditions_determinism:
  assumes "map_of (positions s) i = Some p"
  shows "(side p = ''long'' \<and> jle price (stopLoss p) \<longrightarrow>
            closed_with s (checkExitConditions s i p price now) i p price ''stop_loss'' now)
       \<and> (side p = ''long'' \<and> \<not> jle price (stopLoss p) \<and> jge price (takeProfit p) \<longrightarrow>
            closed_with s (checkExitConditions s i p price now) i p price ''take_profit'' now)
       \<and> (side p = ''long'' \<and> \<not> jle price (stopLoss p) \<and> \<not> jge price (takeProfit p) \<longrightarrow>
            checkExitConditions s i p price now = s)
       \<and> (side p \<noteq> ''long'' \<and> jge price (stopLoss p) \<longrightarrow>
            closed_with s (checkExitConditions s i p price now) i p price ''stop_loss'' now)
       \<and> (side p \<noteq> ''long'' \<and> \<not> jge price (stopLoss p) \<and> jle price (takeProfit p) \<longrightarrow>
            closed_with s (checkExitConditions s i p price now) i p price ''take_profit'' now)
       \<and> (side p \<noteq> ''long'' \<and> \<not> jge price (stopLoss p) \<and> \<not> jle price (takeProfit p) \<longrightarrow>
            checkExitConditions s i p price now = s)
       \<and> (side p = ''long'' \<longrightarrow>
            realizedPnL (mk_trade p price now (calculatePnL p price) rsn)
              = jmul (psize p) (jsub price (entryPrice p)))
       \<and> (side p \<noteq> ''long'' \<longrightarrow>
            realizedPnL (mk_trade p price now (calculatePnL p price) rsn)
              = jmul (psize p) (jsub (entryPrice p) price))
       \<and> reason (mk_trade p price now (calculatePnL p price) rsn) = rsn"
  using closed_with_closePosition[OF assms]
  by (simp add: checkExitConditions_def mk_trade_def position.extend_def calculatePnL_def)

theorem checkExitConditions_determinism_witness:
  "map_of (positions pm_one_long) ''p1'' = Some long_position
   \<and> closed_with pm_one_long
        (checkExitConditions pm_one_long ''p1'' long_position (Fin 97) 7200000)
        ''p1'' long_position (Fin 97) ''stop_loss'' 7200000
   \<and> realizedPnL (mk_trade long_position (Fin 97) 7200000
                    (calculatePnL long_position (Fin 97)) ''stop_loss'')
        = Fin (80 * (97 - 100))
   \<and> closed_with pm_one_long
        (checkExitConditions pm_one_long ''p1'' long_position (Fin 107) 7200000)
        ''p1'' long_position (Fin 107) ''take_profit'' 7200000
   \<and> checkExitConditions pm_one_long ''p1'' long_position (Fin 101) 7200000 = pm_one_long"
proof -
  have open1: "map_of (positions pm_one_long) ''p1'' = Some long_position"
    by (simp add: pm_one_long_def)
  have facts: "side long_position = ''long''" "stopLoss long_position = Fin 98"
    "takeProfit long_position = Fin 106" "psize long_position = Fin 80"
    "entryPrice long_position = Fin 100"
    by (simp_all add: long_position_def)
  show ?thesis
    using open1
      checkExitConditions_determinism[OF open1, of "Fin 97" 7200000 "''stop_loss''"]
      checkExitConditions_determinism[OF open1, of "Fin 107" 7200000 "''take_profit''"]
      checkExitConditions_determinism[OF open1, of "Fin 101" 7200000 "''''"]
    by (simp add: facts jge_def jsub_def)
qed

section \<open>Closing twice\<close>

text \<open>
  Claim C7. Closing an open position appends exactly one trade and removes the position
  from the open set; a second close of the same id returns the not-found result \<open>false\<close>
  (\<open>None\<close>) and changes nothing, and so does any close of an id that is not open.
  \<open>closePosition\<close> has no failing path: it is a total function of the model.
\<close>

theorem closePosition_idempotent:
  "(map_of (positions s) i = Some p \<longrightarrow>
      (\<exists>t s'. closePosition s i cp rsn now = (Some t, s')
         \<and> closedTrades s' = closedTrades s @ [t]
         \<and> positions s' = AList.delete i (positions s)
         \<and> map_of (positions s') i = None
         \<and> closePosition s' i cp2 rsn2 now2 = (None, s')))
   \<and> (map_of (positions s) i = None \<longrightarrow> closePosition s i cp rsn now = (None, s))"
proof (intro conjI impI)
  assume op: "map_of (positions s) i = Some p"
  define t where "t = mk_trade p cp now (calculatePnL p cp) rsn"
  define s' where "s' = snd (closePosition s i cp rsn now)"
  have c1: "closePosition s i cp rsn now = (Some t, s')"
    by (simp add: closePosition_open[OF op] t_def s'_def)
  have c2: "closedTrades s' = closedTrades s @ [t]"
    and c3: "positions s' = AList.delete i (positions s)"
    by (simp_all add: closePosition_open[OF op] t_def s'_def emit_def)
  have c4: "map_of (positions s') i = None"
    by (simp add: c3 delete_conv)
  have c5: "closePosition s' i cp2 rsn2 now2 = (None, s')"
    by (rule closePosition_unknown[OF c4])
  show "\<exists>t s'. closePosition s i cp rsn now = (Some t, s')
         \<and> closedTrades s' = closedTrades s @ [t]
         \<and> positions s' = AList.delete i (positions s)
         \<and> map_of (positions s') i = None
         \<and> closePosition s' i cp2 rsn2 now2 = (None, s')"
    using c1 c2 c3 c4 c5 by blast
next
  assume "map_of (positions s) i = None"
  then show "closePosition s i cp rsn now = (None, s)"
    by (rule closePosition_unknown)
qed

theorem closePosition_idempotent_witness:
  "map_of (positions pm_one_long) ''p1'' = Some long_position
   \<and> (\<exists>t s'. closePosition pm_one_long ''p1'' (Fin 101) ''manual'' 7200000 = (Some t, s')
         \<and> closedTrades s' = closedTrades pm_one_long @ [t]
         \<and> positions s' = AList.delete ''p1'' (positions pm_one_long)
         \<and> map_of (positions s') ''p1'' = None
         \<and> closePosition s' ''p1'' (Fin 102) ''manual'' 7200001 = (None, s'))
   \<and> map_of (positions pm_one_long) ''p2'' = None
   \<and> closePosition pm_one_long ''p2'' (Fin 101) ''manual'' 7200000 = (None, pm_one_long)"
proof -
  have open1: "map_of (positions pm_one_long) ''p1'' = Some long_position"
    and unknown2: "map_of (positions pm_one_long) ''p2'' = None"
    by (simp_all add: pm_one_long_def)
  show ?thesis
    using open1 unknown2
      closePosition_idempotent[of pm_one_long "''p1''" long_position "Fin 101" "''manual''"
        7200000 "Fin 102" "''manual''" 7200001]
      closePosition_idempotent[of pm_one_long "''p2''" long_position "Fin 101" "''manual''"
        7200000 "Fin 102" "''manual''" 7200001]
    by simp
qed

section \<open>Open and close at the entry price\<close>

text \<open>
  Claim C8, as amended. Let \<open>openPosition\<close> admit a signal with a finite price and
  compute a finite size for it. Then closing the new position at the entry price yields a
  trade with \<open>realizedPnL = 0\<close>, and the close credits to \<open>currentCapital\<close> the very
  amount \<open>size * entryPrice\<close> that the open debited: the capital after the round trip is
  \<open>(c - a) + a\<close> for the capital \<open>c\<close> before the open and that amount \<open>a\<close>. The side
  of the signal plays no role. The statement uses no law of exact arithmetic: the
  difference of a finite price with itself and its product with a finite size are zero in
  doubles too, and whether \<open>(c - a) + a\<close> is \<open>c\<close> is left to the rounding of the two
  operations. The witness is a long and a short signal on the default portfolio, where
  both operations are exact and the capital returns to 10000.
\<close>

theorem open_close_at_entry_price:
  assumes "openPosition s i now sg = (Some p, s1)"
    and "is_fin (psize p)" and "is_fin (sg_price sg)"
  shows "\<exists>t s2. closePosition s1 i (sg_price sg) rsn now2 = (Some t, s2)
           \<and> realizedPnL t = Fin 0
           \<and> currentCapital s1 = jsub (currentCapital s) (jmul (psize p) (entryPrice p))
           \<and> currentCapital s2 = jadd (currentCapital s1) (jmul (psize p) (entryPrice p))"
proof -
  have adm: "admits s sg" using assms(1) by (rule openPosition_Some_admits)
  have p: "p = new_position s i now sg"
    and s1: "s1 = emit (PositionOpened (new_position s i now sg))
              (s\<lparr>positions := AList.update i (new_position s i now sg) (positions s),
                 currentCapital := jsub (currentCapital s)
                    (jmul (calculatePositionSize s sg) (sg_price sg))\<rparr>)"
    using assms(1) openPosition_admitted[OF adm, of i now] by auto
  obtain z where z: "psize p = Fin z" using assms(2) by (cases "psize p") simp_all
  obtain price where price: "sg_price sg = Fin price"
    using assms(3) by (cases "sg_price sg") simp_all
  have entry: "entryPrice p = sg_price sg" and size: "psize p = calculatePositionSize s sg"
    by (simp_all add: p new_position_def)
  have look: "map_of (positions s1) i = Some p"
    by (simp add: s1 p emit_def update_conv')
  have diff: "jsub (Fin price) (Fin price) = Fin 0"
    by (simp add: jsub_def)
  have pnl: "calculatePnL p (sg_price sg) = Fin 0"
    by (simp add: calculatePnL_def entry price z diff)
  have debit: "currentCapital s1 = jsub (currentCapital s) (jmul (psize p) (entryPrice p))"
    by (simp add: s1 emit_def entry size)
  have credit: "currentCapital (snd (closePosition s1 i (sg_price sg) rsn now2))
                  = jadd (currentCapital s1) (jmul (psize p) (entryPrice p))"
    by (simp add: closePosition_open[OF look] emit_def entry)
  have trade: "realizedPnL (mk_trade p (sg_price sg) now2 (calculatePnL p (sg_price sg)) rsn) = Fin 0"
    by (simp add: mk_trade_def position.extend_def pnl)
  show ?thesis
    using debit credit trade by (simp add: closePosition_open[OF look])
qed

theorem open_close_at_entry_price_witness:
  "(\<exists>p s1. openPosition (new_pm default_config) ''p1'' 0 xau_signal = (Some p, s1)
      \<and> psize p = Fin 4 \<and> sg_price xau_signal = Fin 2000
      \<and> currentCapital s1 = Fin 2000
      \<and> (\<exists>t s2. closePosition s1 ''p1'' (Fin 2000) ''manual'' 3600000 = (Some t, s2)
            \<and> realizedPnL t = Fin 0 \<and> currentCapital s2 = Fin 10000))
   \<and> (\<exists>p s1. openPosition (new_pm default_config) ''p2'' 0 short_signal = (Some p, s1)
      \<and> psize p = Fin 20 \<and> sg_price short_signal = Fin 100
      \<and> currentCapital s1 = Fin 8000
      \<and> (\<exists>t s2. closePosition s1 ''p2'' (Fin 100) ''manual'' 3600000 = (Some t, s2)
            \<and> realizedPnL t = Fin 0 \<and> currentCapital s2 = Fin 10000))"
proof -
  have cap: "currentCapital (new_pm default_config) = Fin 10000"
    by (simp add: pm_defs)
  let ?p = "new_position (new_pm default_config) ''p1'' 0 xau_signal"
  obtain s1 where o1: "openPosition (new_pm default_config) ''p1'' 0 xau_signal = (Some ?p, s1)"
    using openPosition_admitted[OF admits_default_xau] by blast
  have f1: "psize ?p = Fin 4" "entryPrice ?p = Fin 2000" "sg_price xau_signal = Fin 2000"
    by (simp_all add: new_position_def calculatePositionSize_def pm_defs xau_signal_def)
  have "\<exists>t s2. closePosition s1 ''p1'' (sg_price xau_signal) ''manual'' 3600000 = (Some t, s2)
           \<and> realizedPnL t = Fin 0
           \<and> currentCapital s1 = jsub (currentCapital (new_pm default_config)) (jmul (psize ?p) (entryPrice ?p))
           \<and> currentCapital s2 = jadd (currentCapital s1) (jmul (psize ?p) (entryPrice ?p))"
    by (rule open_close_at_entry_price[OF o1]) (simp_all add: f1)
  then have long: "currentCapital s1 = Fin 2000
      \<and> (\<exists>t s2. closePosition s1 ''p1'' (Fin 2000) ''manual'' 3600000 = (Some t, s2)
            \<and> realizedPnL t = Fin 0 \<and> currentCapital s2 = Fin 10000)"
    by (auto simp add: f1 cap jsub_def)
  let ?q = "new_position (new_pm default_config) ''p2'' 0 short_signal"
  obtain s3 where o2: "openPosition (new_pm default_config) ''p2'' 0 short_signal = (Some ?q, s3)"
    using openPosition_admitted[OF admits_default_short] by blast
  have f2: "psize ?q = Fin 20" "entryPrice ?q = Fin 100" "sg_price short_signal = Fin 100"
    by (simp_all add: new_position_def calculatePositionSize_def pm_defs short_signal_def)
  have "\<exists>t s2. closePosition s3 ''p2'' (sg_price short_signal) ''manual'' 3600000 = (Some t, s2)
           \<and> realizedPnL t = Fin 0
           \<and> currentCapital s3 = jsub (currentCapital (new_pm default_config)) (jmul (psize ?q) (entryPrice ?q))
           \<and> currentCapital s2 = jadd (currentCapital s3) (jmul (psize ?q) (entryPrice ?q))"
    by (rule open_close_at_entry_price[OF o2]) (simp_all add: f2)
  then have short: "currentCapital s3 = Fin 8000
      \<and> (\<exists>t s2. closePosition s3 ''p2'' (Fin 100) ''manual'' 3600000 = (Some t, s2)
            \<and> realizedPnL t = Fin 0 \<and> currentCapital s2 = Fin 10000)"
    by (auto simp add: f2 cap jsub_def)
  show ?thesis using o1 f1 long o2 f2 short by blast
qed

text \<open>
  Claim C8 as stated fails for an admitted signal without a usable stop:
  \<open>canOpenPosition\<close> does not read the stop. The default portfolio admits a signal at
  price 100 whose stop is \<open>NaN\<close>; the size is \<open>NaN\<close>, the open leaves
  \<open>currentCapital = NaN\<close>, and after the close at the entry price the capital is still
  \<open>NaN\<close>, not 10000, and the trade has \<open>realizedPnL = NaN\<close>, not 0.
\<close>

lemma admits_default_nostop: "admits (new_pm default_config) nostop_signal"
  by (simp add: admits_def canOpenPosition_def compute_checks_def checkRiskBudget_def
      checkCorrelationLimit_def getCorrelatedSymbols_def getCurrentPortfolioRisk_def
      pm_defs nostop_signal_def)

theorem roundtrip_without_stop_counterexample:
  "fst (openPosition (new_pm default_config) ''p1'' 0 nostop_signal) \<noteq> None
   \<and> currentCapital (new_pm default_config) = Fin 10000
   \<and> currentCapital (snd (openPosition (new_pm default_config) ''p1'' 0 nostop_signal)) = NaN
   \<and> currentCapital
        (snd (closePosition (snd (openPosition (new_pm default_config) ''p1'' 0 nostop_signal))
                ''p1'' (sg_price nostop_signal) ''manual'' 3600000)) = NaN
   \<and> map realizedPnL
        (closedTrades
           (snd (closePosition (snd (openPosition (new_pm default_config) ''p1'' 0 nostop_signal))
                   ''p1'' (sg_price nostop_signal) ''manual'' 3600000))) = [NaN]"
proof -
  let ?p = "new_position (new_pm default_config) ''p1'' 0 nostop_signal"
  let ?s1 = "snd (openPosition (new_pm default_config) ''p1'' 0 nostop_signal)"
  have sz: "calculatePositionSize (new_pm default_config) nostop_signal = NaN"
    by (simp add: calculatePositionSize_def pm_defs nostop_signal_def)
  have f: "psize ?p = NaN" "entryPrice ?p = Fin 100" "side ?p = ''long''"
    "sg_price nostop_signal = Fin 100"
    by (simp add: new_position_def sz) (simp_all add: new_position_def nostop_signal_def)
  have base: "currentCapital (new_pm default_config) = Fin 10000"
    "closedTrades (new_pm default_config) = []"
    by (simp_all add: pm_defs)
  have look: "map_of (positions ?s1) ''p1'' = Some ?p"
    by (simp add: openPosition_admitted[OF admits_default_nostop] emit_def update_conv')
  have c1: "currentCapital ?s1 = NaN" and t1: "closedTrades ?s1 = []"
    by (simp_all add: openPosition_admitted[OF admits_default_nostop] emit_def sz base jsub_def)
  have pnl: "calculatePnL ?p (Fin 100) = NaN"
    by (simp add: calculatePnL_def f)
  have adm: "fst (openPosition (new_pm default_config) ''p1'' 0 nostop_signal) \<noteq> None"
    by (simp add: openPosition_admitted[OF admits_default_nostop])
  have closed: "currentCapital (snd (closePosition ?s1 ''p1'' (Fin 100) ''manual'' 3600000)) = NaN"
    "map realizedPnL (closedTrades (snd (closePosition ?s1 ''p1'' (Fin 100) ''manual'' 3600000)))
       = [NaN]"
    by (simp_all add: closePosition_open[OF look] emit_def f c1 t1 pnl mk_trade_def
        position.extend_def)
  show ?thesis
    using adm base(1) c1 closed by (simp add: f)
qed

section \<open>Risk budget\<close>

lemma jle_add_mono:
  assumes "jle (jadd c r) m" and "jle (Fin f) r"
  shows "jle (jadd c (Fin f)) m"
  using assms by (cases c; cases r; cases m) simp_all

lemma update_fresh:
  "k \<notin> fst ` set al \<Longrightarrow> AList.update k v al = al @ [(k, v)]"
  by (induction al) auto

lemma getCurrentPortfolioRisk_foldl:
  "getCurrentPortfolioRisk s = foldl (\<lambda>risk pos. jadd risk (positionRisk pos)) (Fin 0) (map snd (positions s))"
  by (simp add: getCurrentPortfolioRisk_def positionRisk_def)

lemma positionRisk_new: "positionRisk (new_position s i now sg) = stop_fraction sg"
  by (simp add: positionRisk_def stop_fraction_def new_position_def)

lemma tight_stop_Fin:
  assumes "tight_stop s sg"
  shows "\<exists>f. stop_fraction sg = Fin f"
  using assms
  by (cases "sg_price sg"; cases "sg_stopLoss sg")
     (auto simp add: tight_stop_def stop_fraction_def jsub_def)

lemma risk_after_admission:
  assumes adm: "admits s sg" and fresh: "i \<notin> fst ` set (positions s)" and tight: "tight_stop s sg"
  shows "within_risk_budget (snd (openPosition s i now sg))"
proof -
  obtain f where f: "stop_fraction sg = Fin f" using tight_stop_Fin[OF tight] by blast
  have le: "jle (Fin f) (maxRiskPerTrade s)" using tight f by (simp add: tight_stop_def)
  have "getCurrentPortfolioRisk (snd (openPosition s i now sg))
          = jadd (getCurrentPortfolioRisk s) (Fin f)"
    by (simp add: openPosition_admitted[OF adm] emit_def update_fresh[OF fresh]
        getCurrentPortfolioRisk_foldl positionRisk_new f)
  moreover have "maxPortfolioRisk (snd (openPosition s i now sg)) = maxPortfolioRisk s"
    by (simp add: openPosition_admitted[OF adm] emit_def)
  ultimately show ?thesis
    using jle_add_mono[OF admits_riskBudget[OF adm] le] by (simp add: within_risk_budget_def)
qed

lemma openPosition_rejected_risk:
  assumes "\<not> admits s sg"
  shows "within_risk_budget (snd (openPosition s i now sg)) = within_risk_budget s"
  by (simp add: openPosition_rejected[OF assms] emit_def within_risk_budget_def
      getCurrentPortfolioRisk_def)

lemma openPosition_keys:
  "fst ` set (positions (snd (openPosition s i now sg))) \<subseteq> insert i (fst ` set (positions s))"
proof (cases "admits s sg")
  case True
  have "fst ` set (AList.update i v al) = insert i (fst ` set al)" for v and al :: "(string \<times> position) list"
    by (induction al) auto
  then show ?thesis by (simp add: openPosition_admitted[OF True] emit_def)
next
  case False
  then show ?thesis by (auto simp add: openPosition_rejected[OF False] emit_def)
qed

lemma openPosition_maxRisk:
  "maxRiskPerTrade (snd (openPosition s i now sg)) = maxRiskPerTrade s"
  by (cases "admits s sg") (simp_all add: openPosition_admitted openPosition_rejected emit_def)

lemma tight_stop_cong: "maxRiskPerTrade s' = maxRiskPerTrade s \<Longrightarrow> tight_stop s' sg = tight_stop s sg"
  by (simp add: tight_stop_def)

lemma open_all_budget:
  assumes "within_risk_budget s"
    and "distinct (map fst reqs)"
    and "\<forall>r \<in> set reqs. fst r \<notin> fst ` set (positions s)"
    and "\<forall>r \<in> set reqs. tight_stop s (snd (snd r))"
  shows "within_risk_budget (open_all s reqs)"
  using assms
proof (induction reqs arbitrary: s)
  case Nil
  then show ?case by simp
next
  case (Cons r reqs)
  obtain i now sg where r: "r = (i, now, sg)" by (cases r) auto
  let ?s1 = "snd (openPosition s i now sg)"
  have fresh: "i \<notin> fst ` set (positions s)" and tight: "tight_stop s sg"
    using Cons.prems r by auto
  have b1: "within_risk_budget ?s1"
  proof (cases "admits s sg")
    case True
    then show ?thesis using risk_after_admission[OF True fresh tight] by simp
  next
    case False
    then show ?thesis using openPosition_rejected_risk[OF False] Cons.prems(1) by simp
  qed
  have d1: "distinct (map fst reqs)" and inot: "i \<notin> fst ` set reqs"
    using Cons.prems(2) r by auto
  have f1: "\<forall>r' \<in> set reqs. fst r' \<notin> fst ` set (positions ?s1)"
  proof
    fix r' assume m: "r' \<in> set reqs"
    then have "fst r' \<noteq> i" using inot by force
    moreover have "fst r' \<notin> fst ` set (positions s)" using Cons.prems(3) m by simp
    ultimately show "fst r' \<notin> fst ` set (positions ?s1)"
      using openPosition_keys[of s i now sg] by blast
  qed
  have t1: "\<forall>r' \<in> set reqs. tight_stop ?s1 (snd (snd r'))"
    using Cons.prems(4) tight_stop_cong[OF openPosition_maxRisk] by simp
  show ?case
    using Cons.IH[OF b1 d1 f1 t1] r by simp
qed

text \<open>
  Claim C1, as amended. Start from a state within its risk budget and run any sequence of
  \<open>openPosition\<close> calls with fresh, pairwise distinct ids, on signals that carry a finite
  non-zero price and a finite stop at a distance fraction \<open>|price - stopLoss| / price\<close> of
  at most \<open>maxRiskPerTrade\<close>. Then after every call of the sequence, admitted or rejected,
  the sum of the risk fractions of the open positions is at most \<open>maxPortfolioRisk\<close>.
\<close>

theorem risk_budget_invariant_tight_stops:
  assumes "within_risk_budget s"
    and "distinct (map fst reqs)"
    and "\<forall>r \<in> set reqs. fst r \<notin> fst ` set (positions s)"
    and "\<forall>r \<in> set reqs. tight_stop s (snd (snd r))"
  shows "within_risk_budget (open_all s (take n reqs))"
proof (rule open_all_budget[OF assms(1)])
  show "distinct (map fst (take n reqs))"
    using assms(2) by (simp add: take_map[symmetric] distinct_take)
  show "\<forall>r \<in> set (take n reqs). fst r \<notin> fst ` set (positions s)"
    using assms(3) by (meson in_set_takeD)
  show "\<forall>r \<in> set (take n reqs). tight_stop s (snd (snd r))"
    using assms(4) by (meson in_set_takeD)
qed

theorem risk_budget_invariant_tight_stops_witness:
  "within_risk_budget (new_pm default_config)
   \<and> tight_stop (new_pm default_config) xau_signal
   \<and> tight_stop (new_pm default_config) tight_short_signal
   \<and> fst (openPosition (new_pm default_config) ''p1'' 0 xau_signal) \<noteq> None
   \<and> within_risk_budget
        (open_all (new_pm default_config)
           (take 2 [(''p1'', 0, xau_signal), (''p2'', 1, tight_short_signal)]))"
proof -
  have b: "within_risk_budget (new_pm default_config)"
    by (simp add: within_risk_budget_def getCurrentPortfolioRisk_def pm_defs)
  have t1: "tight_stop (new_pm default_config) xau_signal"
    and t2: "tight_stop (new_pm default_config) tight_short_signal"
    by (simp_all add: tight_stop_def stop_fraction_def xau_signal_def tight_short_signal_def pm_defs)
  have e: "positions (new_pm default_config) = []"
    by (simp add: pm_defs)
  have adm: "fst (openPosition (new_pm default_config) ''p1'' 0 xau_signal) \<noteq> None"
    by (simp add: openPosition_admitted[OF admits_default_xau])
  have "within_risk_budget
        (open_all (new_pm default_config)
           (take 2 [(''p1'', 0, xau_signal), (''p2'', 1, tight_short_signal)]))"
    by (rule risk_budget_invariant_tight_stops[OF b]) (simp_all add: t1 t2 e)
  then show ?thesis using b t1 t2 adm by simp
qed

lemma eval_open_wide:
  "openPosition (new_pm default_config) ''p1'' 0 wide_signal =
     (Some (new_position (new_pm default_config) ''p1'' 0 wide_signal),
      emit (PositionOpened (new_position (new_pm default_config) ''p1'' 0 wide_signal))
        ((new_pm default_config)\<lparr>positions := [(''p1'', new_position (new_pm default_config) ''p1'' 0 wide_signal)],
           currentCapital := Fin 9600\<rparr>))"
proof -
  have adm: "admits (new_pm default_config) wide_signal"
    by (simp add: admits_def canOpenPosition_def compute_checks_def checkRiskBudget_def
      checkCorrelationLimit_def getCorrelatedSymbols_def getCurrentPortfolioRisk_def
      pm_defs wide_signal_def)
  show ?thesis
    by (simp add: openPosition_admitted[OF adm])
       (simp add: pm_defs wide_signal_def calculatePositionSize_def)
qed

text \<open>
  Claim C1 as stated fails: the admission guard charges every new trade
  \<open>maxRiskPerTrade\<close>, whatever its stop distance. The default portfolio admits a signal at
  price 100 with its stop at 50, and the sum of risk fractions is then 0.5, above the
  budget of 0.1.
\<close>

theorem risk_budget_counterexample:
  "fst (openPosition (new_pm default_config) ''p1'' 0 wide_signal) \<noteq> None
   \<and> getCurrentPortfolioRisk (snd (openPosition (new_pm default_config) ''p1'' 0 wide_signal)) = Fin (1 / 2)
   \<and> maxPortfolioRisk (snd (openPosition (new_pm default_config) ''p1'' 0 wide_signal)) = Fin (1 / 10)
   \<and> \<not> jle (getCurrentPortfolioRisk (snd (openPosition (new_pm default_config) ''p1'' 0 wide_signal)))
           (maxPortfolioRisk (snd (openPosition (new_pm default_config) ''p1'' 0 wide_signal)))"
  by (simp add: eval_open_wide emit_def getCurrentPortfolioRisk_def new_position_def)
     (simp add: pm_defs wide_signal_def)

section \<open>Capital reconciliation\<close>

lemma eval_open_short:
  "openPosition (new_pm default_config) ''p1'' 0 short_signal =
     (Some (new_position (new_pm default_config) ''p1'' 0 short_signal),
      emit (PositionOpened (new_position (new_pm default_config) ''p1'' 0 short_signal))
        ((new_pm default_config)\<lparr>positions := [(''p1'', new_position (new_pm default_config) ''p1'' 0 short_signal)],
           currentCapital := Fin 8000\<rparr>))"
  by (simp add: openPosition_admitted[OF admits_default_short])
     (simp add: pm_defs short_signal_def calculatePositionSize_def)

text \<open>
  Claim C2 at a short position. The default portfolio opens a short position of 20 units
  at 100 and closes it at 90. The trade records a realized PnL of +200, but
  \<open>closePosition\<close> credits \<open>size * closePrice\<close> whatever the side, so the capital ends at
  9800: \<open>currentCapital\<close> plus the committed capital of the open positions is 9800, while
  \<open>initialCapital\<close> plus the realized PnL is 10200.
\<close>

theorem short_close_breaks_reconciliation:
  "currentCapital short_closed_lower = Fin 9800
   \<and> getOpenPositionsValue short_closed_lower = Fin 0
   \<and> initialCapital short_closed_lower = Fin 10000
   \<and> map realizedPnL (closedTrades short_closed_lower) = [Fin 200]
   \<and> jadd (currentCapital short_closed_lower) (getOpenPositionsValue short_closed_lower) = Fin 9800
   \<and> jadd (initialCapital short_closed_lower) (totalRealizedPnL short_closed_lower) = Fin 10200"
proof -
  let ?p = "new_position (new_pm default_config) ''p1'' 0 short_signal"
  have p: "psize ?p = Fin 20" "entryPrice ?p = Fin 100" "side ?p = ''short''"
    by (simp_all add: new_position_def short_signal_def calculatePositionSize_def pm_defs)
  have look: "map_of (positions (snd (openPosition (new_pm default_config) ''p1'' 0 short_signal))) ''p1'' = Some ?p"
    by (simp add: eval_open_short emit_def)
  have pnl: "calculatePnL ?p (Fin 90) = Fin 200"
    by (simp add: calculatePnL_def p jsub_def)
  show ?thesis
    unfolding short_closed_lower_def closePosition_open[OF look]
    by (simp add: eval_open_short emit_def p pnl getOpenPositionsValue_def totalRealizedPnL_def
        mk_trade_def position.extend_def)
       (simp add: pm_defs)
qed

subsection \<open>Long positions reconcile in exact arithmetic\<close>

lemma is_fin_num: "is_fin x \<Longrightarrow> x = Fin (num x)"
  by (cases x) simp_all

lemma is_fin_jmul: "is_fin a \<Longrightarrow> is_fin b \<Longrightarrow> is_fin (jmul a b) \<and> num (jmul a b) = num a * num b"
  by (cases a; cases b) simp_all

lemma foldl_jadd_fin:
  assumes "list_all (\<lambda>x. is_fin (f x)) xs"
  shows "foldl (\<lambda>acc x. jadd acc (f x)) (Fin c) xs = Fin (c + sum_list (map (\<lambda>x. num (f x)) xs))"
  using assms
proof (induction xs arbitrary: c)
  case Nil
  then show ?case by simp
next
  case (Cons x xs)
  then have fx: "f x = Fin (num (f x))" by (intro is_fin_num) simp
  have "foldl (\<lambda>acc x. jadd acc (f x)) (Fin c) (x # xs)
          = foldl (\<lambda>acc x. jadd acc (f x)) (jadd (Fin c) (Fin (num (f x)))) xs"
    using fx by simp
  also have "\<dots> = Fin (c + num (f x) + sum_list (map (\<lambda>x. num (f x)) xs))"
    using Cons by simp
  finally show ?case by (simp add: add.assoc)
qed

lemma openValue_fin:
  assumes "list_all (\<lambda>(k, p). is_fin (psize p) \<and> is_fin (entryPrice p) \<and> side p = ''long'') (positions s)"
  shows "getOpenPositionsValue s = Fin (sum_list (map (\<lambda>(k, p). committed p) (positions s)))"
proof -
  have a: "list_all (\<lambda>p. is_fin (jmul (psize p) (entryPrice p))) (map snd (positions s))"
    using assms by (auto simp add: list_all_iff is_fin_jmul)
  have b: "map ((\<lambda>p. num (jmul (psize p) (entryPrice p))) \<circ> snd) (positions s)
             = map (\<lambda>(k, p). committed p) (positions s)"
    using assms by (intro map_cong) (auto simp add: list_all_iff committed_def is_fin_jmul)
  show ?thesis
    unfolding getOpenPositionsValue_def
    using foldl_jadd_fin[OF a, of 0] by (simp add: b)
qed

lemma realized_fin:
  assumes "list_all (\<lambda>t. is_fin (realizedPnL t)) (closedTrades s)"
  shows "totalRealizedPnL s = Fin (sum_list (map (\<lambda>t. num (realizedPnL t)) (closedTrades s)))"
  unfolding totalRealizedPnL_def using foldl_jadd_fin[OF assms, of 0] by simp

text \<open>In a long book the reconciliation is an equation between real numbers.\<close>

lemma reconciled_real:
  assumes "long_book s"
  shows "reconciled s =
           (num (currentCapital s) + sum_list (map (\<lambda>(k, p). committed p) (positions s))
            = num (initialCapital s) + sum_list (map (\<lambda>t. num (realizedPnL t)) (closedTrades s)))"
proof -
  have c: "currentCapital s = Fin (num (currentCapital s))"
    and i: "initialCapital s = Fin (num (initialCapital s))"
    using assms by (auto simp add: long_book_def intro: is_fin_num)
  have v: "getOpenPositionsValue s = Fin (sum_list (map (\<lambda>(k, p). committed p) (positions s)))"
    using assms by (intro openValue_fin) (simp add: long_book_def)
  have r: "totalRealizedPnL s = Fin (sum_list (map (\<lambda>t. num (realizedPnL t)) (closedTrades s)))"
    using assms by (intro realized_fin) (simp add: long_book_def)
  show ?thesis
    unfolding reconciled_def v r by (subst c, subst i) simp
qed

lemma sum_delete:
  assumes "distinct (map fst al)" and "map_of al k = Some p"
  shows "sum_list (map g (AList.delete k al)) = sum_list (map g al) - (g (k, p) :: real)"
  using assms
proof (induction al)
  case Nil
  then show ?case by simp
next
  case (Cons a al)
  obtain k' p' where a: "a = (k', p')" by (cases a) auto
  show ?case
  proof (cases "k' = k")
    case True
    then have "p' = p" using Cons.prems a by simp
    moreover have "k \<notin> fst ` set al" using Cons.prems(1) a True by auto
    then have "AList.delete k al = al"
      by (simp add: delete_id)
    ultimately show ?thesis using a True by simp
  next
    case False
    then show ?thesis using Cons a by (simp add: AList.delete_eq)
  qed
qed

lemma long_book_close:
  assumes lb: "long_book s" and rc: "reconciled s" and cp: "is_fin cp"
  shows "long_book (snd (closePosition s i cp rsn now))
         \<and> reconciled (snd (closePosition s i cp rsn now))"
proof (cases "map_of (positions s) i")
  case None
  then show ?thesis using lb rc by (simp add: closePosition_unknown)
next
  case (Some p)
  let ?t = "mk_trade p cp now (calculatePnL p cp) rsn"
  let ?s' = "snd (closePosition s i cp rsn now)"
  have mem: "(i, p) \<in> set (positions s)" using Some by (rule map_of_SomeD)
  have pf: "is_fin (psize p)" "is_fin (entryPrice p)" "side p = ''long''"
    using lb mem by (auto simp add: long_book_def list_all_iff)
  obtain z e c where z: "psize p = Fin z" and e: "entryPrice p = Fin e" and c: "cp = Fin c"
    using pf cp by (metis is_fin_num)
  have pnl: "realizedPnL ?t = Fin (z * (c - e))"
    by (simp add: mk_trade_def position.extend_def calculatePnL_def pf z e c jsub_def)
  obtain cap where cap: "currentCapital s = Fin cap"
    using lb by (metis is_fin_num long_book_def)
  have fields: "currentCapital ?s' = Fin (cap + z * c)"
    "positions ?s' = AList.delete i (positions s)"
    "closedTrades ?s' = closedTrades s @ [?t]"
    "initialCapital ?s' = initialCapital s" "maxRiskPerTrade ?s' = maxRiskPerTrade s"
    by (simp_all add: closePosition_open[OF Some] emit_def cap z c)
  have lb': "long_book ?s'"
    using lb pnl
    by (auto simp add: long_book_def fields list_all_iff AList.delete_eq distinct_map_filter)
  have d: "distinct (map fst (positions s))" using lb by (simp add: long_book_def)
  have sum: "sum_list (map (\<lambda>(k, p). committed p) (AList.delete i (positions s)))
               = sum_list (map (\<lambda>(k, p). committed p) (positions s)) - z * e"
    using sum_delete[OF d Some, of "\<lambda>(k, p). committed p"] by (simp add: committed_def z e)
  have "reconciled ?s'"
    using rc unfolding reconciled_real[OF lb'] reconciled_real[OF lb]
    by (simp add: fields sum pnl cap algebra_simps)
  then show ?thesis using lb' by simp
qed

lemma long_book_open:
  assumes lb: "long_book s" and rc: "reconciled s" and ok: "long_call s (Open i now sg)"
  shows "long_book (snd (openPosition s i now sg))
         \<and> reconciled (snd (openPosition s i now sg))"
proof (cases "admits s sg")
  case False
  have "long_book (emit e s) = long_book s" "reconciled (emit e s) = reconciled s" for e
    by (simp_all add: long_book_def reconciled_def emit_def getOpenPositionsValue_def
        totalRealizedPnL_def)
  then show ?thesis using lb rc by (simp add: openPosition_rejected[OF False])
next
  case True
  let ?s' = "snd (openPosition s i now sg)"
  let ?p = "new_position s i now sg"
  obtain cap r price sl where cap: "currentCapital s = Fin cap" and r: "maxRiskPerTrade s = Fin r"
    and price: "sg_price sg = Fin price" and sl: "sg_stopLoss sg = Fin sl"
    using lb ok by (metis is_fin_num long_book_def long_call.simps(1))
  have rpos: "0 < r" and ppos: "0 < price" and fresh: "i \<notin> fst ` set (positions s)"
    and lng: "sg_side sg = ''long''"
    using lb ok r price by (simp_all add: long_book_def)
  have cpos: "0 < cap" using admits_capital[OF True] cap by simp
  obtain z where z: "calculatePositionSize s sg = Fin z"
    using size_finite[OF cap cpos r rpos price _ sl] ppos by auto
  have fields: "currentCapital ?s' = Fin (cap - z * price)"
    "positions ?s' = positions s @ [(i, ?p)]"
    "closedTrades ?s' = closedTrades s"
    "initialCapital ?s' = initialCapital s" "maxRiskPerTrade ?s' = maxRiskPerTrade s"
    by (simp_all add: openPosition_admitted[OF True] emit_def cap z price jsub_def
        update_fresh[OF fresh])
  have pf: "psize ?p = Fin z" "entryPrice ?p = Fin price" "side ?p = ''long''"
    by (simp_all add: new_position_def z price lng)
  have lb': "long_book ?s'"
    using lb fresh by (auto simp add: long_book_def fields pf)
  have "reconciled ?s'"
    using rc unfolding reconciled_real[OF lb'] reconciled_real[OF lb]
    by (simp add: fields cap committed_def pf)
  then show ?thesis using lb' by simp
qed

text \<open>
  For long positions the reconciliation of claim C2 holds in the exact arithmetic of the
  model: it is preserved by every sequence of opens and closes on a long book. In doubles
  the two sides agree up to the rounding of the sums.
\<close>

lemma long_only_reconciliation:
  assumes "long_book s" and "reconciled s" and "long_calls s cs"
  shows "long_book (foldl run_call s cs) \<and> reconciled (foldl run_call s cs)"
  using assms
proof (induction cs arbitrary: s)
  case Nil
  then show ?case by simp
next
  case (Cons c cs)
  have step: "long_book (run_call s c) \<and> reconciled (run_call s c)"
  proof (cases c)
    case (Open i now sg)
    then show ?thesis using long_book_open[OF Cons.prems(1,2)] Cons.prems(3) by simp
  next
    case (Close i cp rsn now)
    then show ?thesis using long_book_close[OF Cons.prems(1,2)] Cons.prems(3) by simp
  qed
  show ?case
    using Cons.IH[of "run_call s c"] step Cons.prems(3) by simp
qed

lemma new_pm_long_book: "long_book (new_pm default_config) \<and> reconciled (new_pm default_config)"
  by (simp add: long_book_def reconciled_def getOpenPositionsValue_def totalRealizedPnL_def pm_defs)

section \<open>Rebalancing\<close>

lemma rebalance_step_unknown:
  "map_of (positions s) k = None \<Longrightarrow> rebalance_step now s k = s"
  by (simp add: rebalance_step_def)

lemma rebalance_step_open:
  assumes "map_of (positions s) k = Some p"
  shows "positions (rebalance_step now s k) = (if loses p then AList.delete k (positions s) else positions s)"
    and "closedTrades (rebalance_step now s k) = (if loses p then closedTrades s @ [rebalance_trade p now] else closedTrades s)"
    and "loses p \<Longrightarrow> PositionClosed (rebalance_trade p now) \<in> set (events (rebalance_step now s k))"
    and "gains p \<Longrightarrow> PartialProfitSuggestion p (pnlPercent_of p) \<in> set (events (rebalance_step now s k))"
    and "set (events s) \<subseteq> set (events (rebalance_step now s k))"
  using assms
  by (auto simp add: rebalance_step_def Let_def closePosition_open emit_def loses_def gains_def
      rebalance_trade_def rebalance_price_def)

lemma delete_eq_filter_loses:
  assumes "distinct (map fst al)" and "map_of al k = Some p"
  shows "(if loses p then AList.delete k al else al) = filter (\<lambda>(k', p'). \<not> (k' = k \<and> loses p')) al"
proof -
  have eq: "\<And>k' p'. (k', p') \<in> set al \<Longrightarrow> k' = k \<Longrightarrow> p' = p"
    using assms by (metis map_of_eq_Some_iff option.inject)
  show ?thesis
  proof (cases "loses p")
    case True
    have "AList.delete k al = filter (\<lambda>(k', p'). \<not> (k' = k \<and> loses p')) al"
      unfolding AList.delete_eq
      by (rule filter_cong) (use eq True in auto)
    then show ?thesis using True by simp
  next
    case False
    have "filter (\<lambda>(k', p'). \<not> (k' = k \<and> loses p')) al = al"
      by (rule filter_True) (use eq False in auto)
    then show ?thesis using False by simp
  qed
qed

lemma rebalance_step_positions:
  assumes "distinct (map fst (positions s))"
  shows "positions (rebalance_step now s k) = filter (\<lambda>(k', p'). \<not> (k' = k \<and> loses p')) (positions s)"
proof (cases "map_of (positions s) k")
  case None
  then have "k \<notin> fst ` set (positions s)" by (simp add: map_of_eq_None_iff)
  then have "filter (\<lambda>(k', p'). \<not> (k' = k \<and> loses p')) (positions s) = positions s"
    by (intro filter_True) force
  then show ?thesis using None by (simp add: rebalance_step_unknown)
next
  case (Some p)
  show ?thesis
    using rebalance_step_open(1)[OF Some] delete_eq_filter_loses[OF assms Some] by simp
qed

lemma rebalance_step_mono:
  "set (closedTrades s) \<subseteq> set (closedTrades (rebalance_step now s k))"
  "set (events s) \<subseteq> set (events (rebalance_step now s k))"
  by (cases "map_of (positions s) k"; auto simp add: rebalance_step_unknown rebalance_step_open)+

lemma rebalance_fold_mono:
  "set (closedTrades s) \<subseteq> set (closedTrades (foldl (rebalance_step now) s ks))
   \<and> set (events s) \<subseteq> set (events (foldl (rebalance_step now) s ks))"
proof (induction ks arbitrary: s)
  case Nil
  then show ?case by simp
next
  case (Cons k ks)
  show ?case
    using Cons.IH[of "rebalance_step now s k"] rebalance_step_mono[of s now k] by auto
qed

lemma rebalance_fold_positions:
  assumes "distinct (map fst (positions s))"
  shows "positions (foldl (rebalance_step now) s ks)
           = filter (\<lambda>(k', p'). \<not> (k' \<in> set ks \<and> loses p')) (positions s)"
  using assms
proof (induction ks arbitrary: s)
  case Nil
  then show ?case by simp
next
  case (Cons k ks)
  let ?s1 = "rebalance_step now s k"
  have p1: "positions ?s1 = filter (\<lambda>(k', p'). \<not> (k' = k \<and> loses p')) (positions s)"
    by (rule rebalance_step_positions[OF Cons.prems])
  have d1: "distinct (map fst (positions ?s1))"
    unfolding p1 by (rule distinct_map_filter[OF Cons.prems])
  have "positions (foldl (rebalance_step now) ?s1 ks)
          = filter (\<lambda>(k', p'). \<not> (k' \<in> set ks \<and> loses p')) (positions ?s1)"
    by (rule Cons.IH[OF d1])
  also have "\<dots> = filter (\<lambda>(k', p'). \<not> (k' \<in> set (k # ks) \<and> loses p')) (positions s)"
    unfolding p1 filter_filter by (rule filter_cong) auto
  finally show ?case by simp
qed

lemma rebalance_fold_effects:
  assumes "distinct (map fst (positions s))" and "(k, p) \<in> set (positions s)" and "k \<in> set ks"
  shows "(loses p \<longrightarrow> rebalance_trade p now \<in> set (closedTrades (foldl (rebalance_step now) s ks))
                    \<and> PositionClosed (rebalance_trade p now) \<in> set (events (foldl (rebalance_step now) s ks)))
       \<and> (gains p \<longrightarrow> PartialProfitSuggestion p (pnlPercent_of p) \<in> set (events (foldl (rebalance_step now) s ks)))"
  using assms
proof (induction ks arbitrary: s)
  case Nil
  then show ?case by simp
next
  case (Cons k0 ks)
  let ?s1 = "rebalance_step now s k0"
  show ?case
  proof (cases "k = k0")
    case True
    have look: "map_of (positions s) k0 = Some p"
      using Cons.prems(1,2) True by simp
    have a: "loses p \<Longrightarrow> rebalance_trade p now \<in> set (closedTrades ?s1)"
      by (simp add: rebalance_step_open(2)[OF look])
    note b = rebalance_step_open(3)[OF look, of now] and c = rebalance_step_open(4)[OF look, of now]
    show ?thesis
      using a b c rebalance_fold_mono[of ?s1 now ks] by auto
  next
    case False
    have p1: "positions ?s1 = filter (\<lambda>(k', p'). \<not> (k' = k0 \<and> loses p')) (positions s)"
      by (rule rebalance_step_positions[OF Cons.prems(1)])
    have d1: "distinct (map fst (positions ?s1))"
      unfolding p1 by (rule distinct_map_filter[OF Cons.prems(1)])
    have m1: "(k, p) \<in> set (positions ?s1)"
      unfolding p1 using Cons.prems(2) False by simp
    have k1: "k \<in> set ks" using Cons.prems(3) False by simp
    show ?thesis using Cons.IH[OF d1 m1 k1] by simp
  qed
qed

lemma gains_not_loses: "gains p \<Longrightarrow> \<not> loses p"
  by (cases "pnlPercent_of p") (simp_all add: gains_def loses_def jgt_def)

text \<open>
  Claim C9, as amended. In a state whose open positions have distinct keys, a rebalance
  sweep closes every open position whose unrealized PnL fraction is below -15%, with the
  close reason \<open>rebalance_loss\<close>: the position leaves the open set, its trade is appended
  to the closed trades and announced. For every position whose fraction is above 25% the
  sweep emits a \<open>partialProfitSuggestion\<close> event and leaves the position open. The open
  set after the sweep is the open set before it without the positions below -15%.
\<close>

theorem rebalance_sweep:
  assumes "distinct (map fst (positions s))" and "(k, p) \<in> set (positions s)"
  shows "(jlt (pnlPercent_of p) (Fin (- (15 / 100))) \<longrightarrow>
            map_of (positions (rebalancePortfolio s now)) k = None
            \<and> rebalance_trade p now \<in> set (closedTrades (rebalancePortfolio s now))
            \<and> reason (rebalance_trade p now) = ''rebalance_loss''
            \<and> PositionClosed (rebalance_trade p now) \<in> set (events (rebalancePortfolio s now)))
       \<and> (jgt (pnlPercent_of p) (Fin (25 / 100)) \<longrightarrow>
            PartialProfitSuggestion p (pnlPercent_of p) \<in> set (events (rebalancePortfolio s now))
            \<and> map_of (positions (rebalancePortfolio s now)) k = Some p)
       \<and> positions (rebalancePortfolio s now)
            = filter (\<lambda>(k', p'). \<not> jlt (pnlPercent_of p') (Fin (- (15 / 100)))) (positions s)"
proof -
  let ?f = "foldl (rebalance_step now) s (map fst (positions s))"
  have kin: "k \<in> set (map fst (positions s))" using assms(2) by force
  have pos: "positions (rebalancePortfolio s now)
               = filter (\<lambda>(k', p'). \<not> loses p') (positions s)"
    unfolding rebalancePortfolio_def emit_def
    by (simp add: rebalance_fold_positions[OF assms(1)]) (rule filter_cong, simp, force)
  have d2: "distinct (map fst (positions (rebalancePortfolio s now)))"
    unfolding pos by (rule distinct_map_filter[OF assms(1)])
  have eff: "(loses p \<longrightarrow> rebalance_trade p now \<in> set (closedTrades ?f)
                    \<and> PositionClosed (rebalance_trade p now) \<in> set (events ?f))
       \<and> (gains p \<longrightarrow> PartialProfitSuggestion p (pnlPercent_of p) \<in> set (events ?f))"
    by (rule rebalance_fold_effects[OF assms kin])
  have gone: "loses p \<Longrightarrow> map_of (positions (rebalancePortfolio s now)) k = None"
  proof -
    assume l: "loses p"
    have "\<And>p'. (k, p') \<in> set (positions s) \<Longrightarrow> p' = p"
      using assms by (meson eq_key_imp_eq_value)
    then have "k \<notin> fst ` set (filter (\<lambda>(k', p'). \<not> loses p') (positions s))"
      using l by force
    then show ?thesis unfolding pos by (simp add: map_of_eq_None_iff)
  qed
  have kept: "gains p \<Longrightarrow> map_of (positions (rebalancePortfolio s now)) k = Some p"
  proof -
    assume g: "gains p"
    then have "(k, p) \<in> set (positions (rebalancePortfolio s now))"
      unfolding pos using assms(2) gains_not_loses by simp
    then show ?thesis using d2 by simp
  qed
  have r: "reason (rebalance_trade p now) = ''rebalance_loss''"
    by (simp add: rebalance_trade_def mk_trade_def position.extend_def)
  show ?thesis
    using eff gone kept r pos
    by (simp add: rebalancePortfolio_def emit_def loses_def gains_def)
qed

lemma pnl_examples:
  "pnlPercent_of losing_position = Fin (- (1 / 5))"
  "pnlPercent_of winning_position = Fin (3 / 10)"
  by (simp_all add: pnlPercent_of_def losing_position_def winning_position_def long_position_def)

theorem rebalance_sweep_witness:
  "distinct (map fst (positions pm_loser_winner))
   \<and> (''p1'', losing_position) \<in> set (positions pm_loser_winner)
   \<and> jlt (pnlPercent_of losing_position) (Fin (- (15 / 100)))
   \<and> map_of (positions (rebalancePortfolio pm_loser_winner 0)) ''p1'' = None
   \<and> rebalance_trade losing_position 0 \<in> set (closedTrades (rebalancePortfolio pm_loser_winner 0))
   \<and> reason (rebalance_trade losing_position 0) = ''rebalance_loss''
   \<and> (''p2'', winning_position) \<in> set (positions pm_loser_winner)
   \<and> jgt (pnlPercent_of winning_position) (Fin (25 / 100))
   \<and> PartialProfitSuggestion winning_position (pnlPercent_of winning_position)
        \<in> set (events (rebalancePortfolio pm_loser_winner 0))
   \<and> map_of (positions (rebalancePortfolio pm_loser_winner 0)) ''p2'' = Some winning_position"
proof -
  have d: "distinct (map fst (positions pm_loser_winner))"
    and m1: "(''p1'', losing_position) \<in> set (positions pm_loser_winner)"
    and m2: "(''p2'', winning_position) \<in> set (positions pm_loser_winner)"
    by (simp_all add: pm_loser_winner_def)
  have l: "jlt (pnlPercent_of losing_position) (Fin (- (15 / 100)))"
    and g: "jgt (pnlPercent_of winning_position) (Fin (25 / 100))"
    by (simp_all add: pnl_examples jgt_def)
  have a: "map_of (positions (rebalancePortfolio pm_loser_winner 0)) ''p1'' = None
      \<and> rebalance_trade losing_position 0 \<in> set (closedTrades (rebalancePortfolio pm_loser_winner 0))
      \<and> reason (rebalance_trade losing_position 0) = ''rebalance_loss''"
    using rebalance_sweep[OF d m1, of 0] l by blast
  have b: "PartialProfitSuggestion winning_position (pnlPercent_of winning_position)
        \<in> set (events (rebalancePortfolio pm_loser_winner 0))
      \<and> map_of (positions (rebalancePortfolio pm_loser_winner 0)) ''p2'' = Some winning_position"
    using rebalance_sweep[OF d m2, of 0] g by blast
  show ?thesis
    using d m1 m2 l g a b by blast
qed

text \<open>
  Claim C9 as stated fails on the close reason: the sweep closes a position that is 20%
  down with the reason \<open>rebalance_loss\<close>, which is not \<open>rebalance\<close> and is not a member
  of the set of close reasons that the data model declares.
\<close>

theorem rebalance_reason_counterexample:
  "pnlPercent_of losing_position = Fin (- (1 / 5))
   \<and> map_of (positions pm_loser_winner) ''p1'' = Some losing_position
   \<and> map reason (closedTrades (rebalancePortfolio pm_loser_winner 0)) = [''rebalance_loss'']
   \<and> ''rebalance_loss'' \<notin> set spec_closeReasons
   \<and> ''rebalance_loss'' \<noteq> ''rebalance''"
proof -
  have look: "map_of (positions pm_loser_winner) ''p1'' = Some losing_position"
    "map_of (AList.delete ''p1'' (positions pm_loser_winner)) ''p2'' = Some winning_position"
    by (simp_all add: pm_loser_winner_def)
  have ct: "closedTrades pm_loser_winner = []"
    by (simp add: pm_loser_winner_def pm_defs)
  have keys: "map fst (positions pm_loser_winner) = [''p1'', ''p2'']"
    by (simp add: pm_loser_winner_def)
  show ?thesis
    by (simp add: pnl_examples look ct keys rebalancePortfolio_def rebalance_step_def Let_def
        closePosition_open emit_def jgt_def mk_trade_def position.extend_def spec_closeReasons_def)
qed

section \<open>Facts about the webhook receiver\<close>

lemmas wh_defs = default_receiver_def secured_receiver_def new_receiver_def str_or_def num_or_def
  unsigned_buy_def unsigned_unlisted_def unsigned_sell_def buy_btc_def buy_unlisted_def
  sell_eth_def empty_body_def parseWebhookData_def extractSignalData_def

lemmas pattern_defs = symbol_pattern_def matches_suffix_def upper_chr_def lower_chr_def
  uppercase_def lowercase_def is_letter_def toLowerCase_def

lemma duplicate_in_iff:
  "duplicate_in ttl sg al =
     (\<exists>e \<in> snd ` set al. same_key e sg \<and> ws_timestamp sg - ws_timestamp e < ttl)"
  by (induction al) (auto simp add: same_key_def)

lemma update_other_mem:
  "(k, e) \<in> set al \<Longrightarrow> k \<noteq> k' \<Longrightarrow> (k, e) \<in> set (AList.update k' v al)"
  by (induction al) auto

lemma update_self_mem: "(k, v) \<in> set (AList.update k v al)"
  by (induction al) auto

lemma processSignal_fields:
  "signalTTL (processSignal r sg now) = signalTTL r"
  "recentSignals (processSignal r sg now) =
     filter (\<lambda>(k, e). \<not> (now - ws_timestamp e > signalTTL r * 10))
       (AList.update (ws_id sg) sg (recentSignals r))"
  by (simp_all add: processSignal_def cleanOldSignals_def wemit_def Let_def)

lemma processSignal_invalid:
  "\<not> isValidSignal sg \<Longrightarrow> emitted (processSignal r sg now) = emitted r @ [InvalidSignal sg]"
  by (simp add: processSignal_def cleanOldSignals_def wemit_def Let_def)

lemma webhook_route_ttl: "signalTTL (snd (webhook_route r req sid t t2)) = signalTTL r"
  by (simp add: webhook_route_def Let_def processSignal_fields)

lemma post_webhook_ttl: "signalTTL (snd (post_webhook digest r req sid t t2)) = signalTTL r"
  by (simp add: post_webhook_def webhook_route_ttl split: option.splits)

lemma route_keeps_entry:
  assumes "(k, e) \<in> set (recentSignals r)" and "k \<noteq> sid"
    and "t2 - ws_timestamp e \<le> signalTTL r * 10"
  shows "(k, e) \<in> set (recentSignals (snd (webhook_route r req sid t t2)))"
  using assms update_other_mem[OF assms(1,2)]
  by (simp add: webhook_route_def Let_def processSignal_fields parseWebhookData_def
      extractSignalData_def)

lemma post_keeps_entry:
  assumes "(k, e) \<in> set (recentSignals r)" and "k \<noteq> sid"
    and "t2 - ws_timestamp e \<le> signalTTL r * 10"
  shows "(k, e) \<in> set (recentSignals (snd (post_webhook digest r req sid t t2)))"
  using assms route_keeps_entry[OF assms]
  by (simp add: post_webhook_def split: option.splits)

lemma post_all_Cons_snd:
  "snd (post_all digest r ((req, sid, t, t2) # rest))
     = snd (post_all digest (snd (post_webhook digest r req sid t t2)) rest)"
  by (simp add: case_prod_unfold Let_def)

lemma post_all_keeps_entry:
  assumes "(k, e) \<in> set (recentSignals r)"
    and "\<forall>m \<in> set mid. fst (snd m) \<noteq> k"
    and "\<forall>m \<in> set mid. snd (snd (snd m)) - ws_timestamp e \<le> signalTTL r * 10"
  shows "(k, e) \<in> set (recentSignals (snd (post_all digest r mid)))
         \<and> signalTTL (snd (post_all digest r mid)) = signalTTL r"
  using assms
proof (induction mid arbitrary: r)
  case Nil
  then show ?case by simp
next
  case (Cons m mid)
  obtain req sid t t2 where m: "m = (req, sid, t, t2)" by (cases m) auto
  let ?r1 = "snd (post_webhook digest r req sid t t2)"
  have ttl: "signalTTL ?r1 = signalTTL r" by (rule post_webhook_ttl)
  have e1: "(k, e) \<in> set (recentSignals ?r1)"
    by (rule post_keeps_entry) (use Cons.prems m in auto)
  have "(k, e) \<in> set (recentSignals (snd (post_all digest ?r1 mid)))
         \<and> signalTTL (snd (post_all digest ?r1 mid)) = signalTTL ?r1"
    by (rule Cons.IH[OF e1]) (use Cons.prems ttl in auto)
  then show ?case
    unfolding m post_all_Cons_snd by (simp add: ttl)
qed

lemma route_stores:
  assumes "\<not> isDuplicateSignal r (parseWebhookData (req_body req) sid t)"
    and "t2 - t \<le> signalTTL r * 10"
  shows "webhook_route r req sid t t2
           = (Received sid, processSignal r (parseWebhookData (req_body req) sid t) t2)"
    and "(sid, parseWebhookData (req_body req) sid t)
           \<in> set (recentSignals (snd (webhook_route r req sid t t2)))"
  using assms update_self_mem[of sid "parseWebhookData (req_body req) sid t" "recentSignals r"]
  by (simp_all add: webhook_route_def Let_def processSignal_fields parseWebhookData_def
      extractSignalData_def)

lemma stored_signal_blocks:
  assumes st: "(k, e) \<in> set (recentSignals r1)"
    and ids: "\<forall>m \<in> set mid. fst (snd m) \<noteq> k"
    and times: "\<forall>m \<in> set mid. snd (snd (snd m)) \<le> tb"
    and order: "ws_timestamp e \<le> tb"
    and same: "same_key e (parseWebhookData (req_body req_b) id_b tb)"
    and win: "tb - ws_timestamp e < signalTTL r1"
  shows "webhook_route (snd (post_all digest r1 mid)) req_b id_b tb tb2
           = (DuplicateIgnored, snd (post_all digest r1 mid))"
proof -
  let ?r2 = "snd (post_all digest r1 mid)"
  have pos: "0 < signalTTL r1" using order win by simp
  have bound: "\<forall>m \<in> set mid. snd (snd (snd m)) - ws_timestamp e \<le> signalTTL r1 * 10"
  proof
    fix m assume "m \<in> set mid"
    then have "snd (snd (snd m)) \<le> tb" using times by simp
    then show "snd (snd (snd m)) - ws_timestamp e \<le> signalTTL r1 * 10"
      using win pos by simp
  qed
  have keep: "(k, e) \<in> set (recentSignals ?r2)" and ttl: "signalTTL ?r2 = signalTTL r1"
    using post_all_keeps_entry[OF st ids bound] by simp_all
  have ts: "ws_timestamp (parseWebhookData (req_body req_b) id_b tb) = tb"
    by (simp add: parseWebhookData_def extractSignalData_def)
  have "isDuplicateSignal ?r2 (parseWebhookData (req_body req_b) id_b tb)"
    unfolding isDuplicateSignal_def duplicate_in_iff
    using keep same win ttl ts by force
  then show ?thesis by (simp add: webhook_route_def)
qed

lemma post_webhook_cases:
  "post_webhook digest r req sid t t2 = webhook_route r req sid t t2
   \<or> post_webhook digest r req sid t t2 \<in> {(Forbidden, r), (InvalidSignature, r), (ServerError, r)}"
  by (auto simp add: post_webhook_def middleware_def split: option.splits sum.splits bool.splits)

lemma post_webhook_Received:
  assumes "post_webhook digest r req sid t t2 = (Received i, r1)"
  shows "i = sid \<and> \<not> isDuplicateSignal r (parseWebhookData (req_body req) sid t)
         \<and> r1 = processSignal r (parseWebhookData (req_body req) sid t) t2"
  using assms post_webhook_cases[of digest r req sid t t2]
  by (auto simp add: webhook_route_def Let_def parseWebhookData_def extractSignalData_def
      split: if_splits)

lemma processSignal_config:
  "webhookSecret (processSignal r sg now) = webhookSecret r"
  "allowedIPs (processSignal r sg now) = allowedIPs r"
  by (simp_all add: processSignal_def cleanOldSignals_def wemit_def Let_def)

lemma post_webhook_config:
  "webhookSecret (snd (post_webhook digest r req sid t t2)) = webhookSecret r"
  "allowedIPs (snd (post_webhook digest r req sid t t2)) = allowedIPs r"
  by (simp_all add: post_webhook_def webhook_route_def Let_def processSignal_config
      split: option.splits)

lemma post_all_config:
  "webhookSecret (snd (post_all digest r reqs)) = webhookSecret r
   \<and> allowedIPs (snd (post_all digest r reqs)) = allowedIPs r"
proof (induction reqs arbitrary: r)
  case Nil
  then show ?case by simp
next
  case (Cons m reqs)
  obtain req sid t t2 where m: "m = (req, sid, t, t2)" by (cases m) auto
  show ?case
    unfolding m post_all_Cons_snd
    using Cons.IH[of "snd (post_webhook digest r req sid t t2)"]
    by (simp add: post_webhook_config)
qed

lemma open_middleware:
  assumes "allowedIPs r = []" and "webhookSecret r = None"
  shows "middleware digest r req = None"
    and "post_webhook digest r req sid t t2 = webhook_route r req sid t t2"
  using assms by (simp_all add: post_webhook_def middleware_def)

lemma default_receiver_fields:
  "allowedIPs default_receiver = []" "webhookSecret default_receiver = None"
  "recentSignals default_receiver = []" "emitted default_receiver = []"
  "signalTTL default_receiver = 60000"
  by (simp_all add: default_receiver_def new_receiver_def str_or_def)

lemma parse_fields:
  "ws_id (parseWebhookData d sid t) = sid"
  "ws_timestamp (parseWebhookData d sid t) = t"
  "ws_symbol (parseWebhookData d sid t) = str_or (b_symbol d) (b_ticker d)"
  "ws_action (parseWebhookData d sid t) = str_or (b_action d) (b_signal d)"
  by (simp_all add: parseWebhookData_def extractSignalData_def)

lemma same_key_same_body:
  "same_key (parseWebhookData d sid t) (parseWebhookData d sid' t')"
  by (simp add: same_key_def parse_fields)

section \<open>Deduplication\<close>

text \<open>
  Claim C6, as amended. An incoming signal is classified a duplicate exactly when the
  recent-signal window holds a signal with the same symbol and the same action whose
  timestamp lies less than \<open>signalTTL\<close> before its own. Let a request be answered
  \<open>received\<close>, let any requests follow that do not reuse its signal id, and let a request
  with the same symbol and action arrive less than \<open>signalTTL\<close> after the first, the clock
  readings of the earlier requests not exceeding its own. Then the route handler answers
  the later request \<open>duplicate_ignored\<close>; whatever the middlewares answer, the later
  request is not answered \<open>received\<close> and it leaves the window and the emitted events
  unchanged. So at most one of the two signals is admitted.
\<close>

theorem dedup_at_most_one:
  assumes first: "post_webhook digest r req_a id_a ta ta2 = (Received i, r1)"
    and ids: "\<forall>m \<in> set mid. fst (snd m) \<noteq> id_a"
    and times: "\<forall>m \<in> set mid. snd (snd (snd m)) \<le> tb"
    and order: "ta \<le> tb" "ta2 \<le> tb"
    and same: "same_key (parseWebhookData (req_body req_a) id_a ta)
                 (parseWebhookData (req_body req_b) id_b tb)"
    and win: "tb - ta < signalTTL r"
  shows "(isDuplicateSignal r' sg =
           (\<exists>e \<in> snd ` set (recentSignals r'). ws_symbol e = ws_symbol sg
               \<and> ws_action e = ws_action sg
               \<and> ws_timestamp sg - ws_timestamp e < signalTTL r'))
       \<and> webhook_route (snd (post_all digest r1 mid)) req_b id_b tb tb2
           = (DuplicateIgnored, snd (post_all digest r1 mid))
       \<and> snd (post_webhook digest (snd (post_all digest r1 mid)) req_b id_b tb tb2)
           = snd (post_all digest r1 mid)
       \<and> fst (post_webhook digest (snd (post_all digest r1 mid)) req_b id_b tb tb2)
           \<in> {DuplicateIgnored, Forbidden, InvalidSignature, ServerError}"
proof -
  let ?sa = "parseWebhookData (req_body req_a) id_a ta"
  let ?r2 = "snd (post_all digest r1 mid)"
  have iff: "isDuplicateSignal r' sg =
           (\<exists>e \<in> snd ` set (recentSignals r'). ws_symbol e = ws_symbol sg
               \<and> ws_action e = ws_action sg
               \<and> ws_timestamp sg - ws_timestamp e < signalTTL r')"
    by (simp add: isDuplicateSignal_def duplicate_in_iff same_key_def)
  have rec: "\<not> isDuplicateSignal r ?sa" and r1: "r1 = processSignal r ?sa ta2"
    using post_webhook_Received[OF first] by simp_all
  have pos: "0 < signalTTL r" using order win by simp
  have own: "ta2 - ta \<le> signalTTL r * 10" using order win pos by simp
  have st: "(id_a, ?sa) \<in> set (recentSignals r1)"
    using route_stores[OF rec own] r1 by simp
  have ttl: "signalTTL r1 = signalTTL r" by (simp add: r1 processSignal_fields)
  have ts: "ws_timestamp ?sa = ta"
    by (simp add: parseWebhookData_def extractSignalData_def)
  have dup: "webhook_route ?r2 req_b id_b tb tb2 = (DuplicateIgnored, ?r2)"
    by (rule stored_signal_blocks[OF st ids times _ same]) (simp_all add: ts ttl order win)
  have unchanged: "snd (post_webhook digest ?r2 req_b id_b tb tb2) = ?r2"
    using post_webhook_cases[of digest ?r2 req_b id_b tb tb2] dup by auto
  have resp: "fst (post_webhook digest ?r2 req_b id_b tb tb2)
           \<in> {DuplicateIgnored, Forbidden, InvalidSignature, ServerError}"
    using post_webhook_cases[of digest ?r2 req_b id_b tb tb2] dup by auto
  show ?thesis using iff dup unchanged resp by blast
qed

lemma eval_first_buy:
  "post_webhook (\<lambda>secret payload. []) default_receiver unsigned_buy ''tv_1'' 1000 1000
     = (Received ''tv_1'',
        processSignal default_receiver (parseWebhookData buy_btc ''tv_1'' 1000) 1000)"
  by (simp add: open_middleware(2) default_receiver_fields webhook_route_def
      isDuplicateSignal_def parse_fields unsigned_buy_def)

theorem dedup_at_most_one_witness:
  "post_webhook (\<lambda>secret payload. []) default_receiver unsigned_buy ''tv_1'' 1000 1000
     = (Received ''tv_1'',
        processSignal default_receiver (parseWebhookData buy_btc ''tv_1'' 1000) 1000)
   \<and> same_key (parseWebhookData (req_body unsigned_buy) ''tv_1'' 1000)
        (parseWebhookData (req_body unsigned_buy) ''tv_3'' 30000)
   \<and> 30000 - 1000 < signalTTL default_receiver
   \<and> post_webhook (\<lambda>secret payload. [])
        (snd (post_all (\<lambda>secret payload. [])
                (processSignal default_receiver (parseWebhookData buy_btc ''tv_1'' 1000) 1000)
                [(unsigned_sell, ''tv_2'', 2000, 2000)]))
        unsigned_buy ''tv_3'' 30000 30000
     = (DuplicateIgnored,
        snd (post_all (\<lambda>secret payload. [])
                (processSignal default_receiver (parseWebhookData buy_btc ''tv_1'' 1000) 1000)
                [(unsigned_sell, ''tv_2'', 2000, 2000)]))"
proof -
  let ?d = "\<lambda>secret payload. []"
  let ?r1 = "processSignal default_receiver (parseWebhookData buy_btc ''tv_1'' 1000) 1000"
  let ?r2 = "snd (post_all ?d ?r1 [(unsigned_sell, ''tv_2'', 2000, 2000)])"
  have same: "same_key (parseWebhookData (req_body unsigned_buy) ''tv_1'' 1000)
        (parseWebhookData (req_body unsigned_buy) ''tv_3'' 30000)"
    by (rule same_key_same_body)
  have win: "30000 - 1000 < signalTTL default_receiver"
    by (simp add: default_receiver_fields)
  have cfg: "allowedIPs ?r2 = []" "webhookSecret ?r2 = None"
    using post_all_config[of ?d ?r1 "[(unsigned_sell, ''tv_2'', 2000, 2000)]"]
    by (simp_all add: processSignal_config default_receiver_fields)
  have "webhook_route ?r2 unsigned_buy ''tv_3'' 30000 30000 = (DuplicateIgnored, ?r2)"
    by (rule dedup_at_most_one[OF eval_first_buy _ _ _ _ same win, THEN conjunct2, THEN conjunct1])
       simp_all
  then have "post_webhook ?d ?r2 unsigned_buy ''tv_3'' 30000 30000 = (DuplicateIgnored, ?r2)"
    by (simp only: open_middleware(2)[OF cfg])
  then show ?thesis using eval_first_buy same win by blast
qed

text \<open>
  Claim C6 as stated fails where it says that exactly one of two such signals is admitted:
  of three requests for the same symbol and action at 0, 10 and 20 seconds the first is
  answered \<open>received\<close> and both later ones \<open>duplicate_ignored\<close>. The second and the third
  have the same symbol and action and arrive 10 seconds apart, and neither is admitted.
\<close>

theorem dedup_exactly_one_counterexample:
  "fst (post_all (\<lambda>secret payload. []) default_receiver
          [(unsigned_buy, ''tv_1'', 0, 0), (unsigned_buy, ''tv_2'', 10000, 10000),
           (unsigned_buy, ''tv_3'', 20000, 20000)])
     = [Received ''tv_1'', DuplicateIgnored, DuplicateIgnored]
   \<and> same_key (parseWebhookData (req_body unsigned_buy) ''tv_2'' 10000)
        (parseWebhookData (req_body unsigned_buy) ''tv_3'' 20000)
   \<and> 20000 - 10000 < signalTTL default_receiver"
proof -
  let ?d = "\<lambda>secret payload. []"
  let ?sa = "parseWebhookData (req_body unsigned_buy) ''tv_1'' 0"
  let ?r1 = "processSignal default_receiver ?sa 0"
  have nd: "\<not> isDuplicateSignal default_receiver ?sa"
    by (simp add: isDuplicateSignal_def default_receiver_fields)
  have s1: "post_webhook ?d default_receiver unsigned_buy ''tv_1'' 0 0 = (Received ''tv_1'', ?r1)"
    using route_stores(1)[OF nd, of 0]
    by (simp add: open_middleware(2) default_receiver_fields parse_fields)
  have st: "(''tv_1'', ?sa) \<in> set (recentSignals ?r1)"
    using route_stores[OF nd, of 0] by (simp add: default_receiver_fields parse_fields)
  have cfg: "allowedIPs ?r1 = []" "webhookSecret ?r1 = None" "signalTTL ?r1 = 60000"
    by (simp_all add: processSignal_config processSignal_fields default_receiver_fields)
  have later: "post_webhook ?d ?r1 unsigned_buy sid tb tb = (DuplicateIgnored, ?r1)"
    if "0 \<le> tb" and "tb < 60000" for sid tb
    using stored_signal_blocks[OF st, of "[]" tb unsigned_buy sid ?d tb] that
    by (simp add: open_middleware(2)[OF cfg(1,2)] cfg(3) parse_fields same_key_same_body)
  have "fst (post_all ?d default_receiver
          [(unsigned_buy, ''tv_1'', 0, 0), (unsigned_buy, ''tv_2'', 10000, 10000),
           (unsigned_buy, ''tv_3'', 20000, 20000)])
     = [Received ''tv_1'', DuplicateIgnored, DuplicateIgnored]"
    by (simp add: s1 later)
  then show ?thesis
    by (simp add: same_key_same_body default_receiver_fields)
qed

section \<open>Invalid signals in the window\<close>

text \<open>
  Claim C10. A signal that is not a duplicate and fails validation is answered
  \<open>received\<close> and is stored in the recent-signal window; only an \<open>invalidSignal\<close> event is
  emitted for it. A later request with the same symbol and action, less than
  \<open>signalTTL\<close> after it, is answered \<open>duplicate_ignored\<close> by the route handler and changes
  nothing. The witness covers a symbol outside the pattern, a missing symbol and an
  unrecognized action.
\<close>

theorem invalid_signal_blocks_window:
  assumes nd: "\<not> isDuplicateSignal r (parseWebhookData (req_body req_a) id_a ta)"
    and inv: "\<not> isValidSignal (parseWebhookData (req_body req_a) id_a ta)"
    and ids: "\<forall>m \<in> set mid. fst (snd m) \<noteq> id_a"
    and times: "\<forall>m \<in> set mid. snd (snd (snd m)) \<le> tb"
    and order: "ta \<le> tb" "ta2 \<le> tb"
    and same: "same_key (parseWebhookData (req_body req_a) id_a ta)
                 (parseWebhookData (req_body req_b) id_b tb)"
    and win: "tb - ta < signalTTL r"
  shows "webhook_route r req_a id_a ta ta2
           = (Received id_a, processSignal r (parseWebhookData (req_body req_a) id_a ta) ta2)
       \<and> (id_a, parseWebhookData (req_body req_a) id_a ta)
           \<in> set (recentSignals (processSignal r (parseWebhookData (req_body req_a) id_a ta) ta2))
       \<and> emitted (processSignal r (parseWebhookData (req_body req_a) id_a ta) ta2)
           = emitted r @ [InvalidSignal (parseWebhookData (req_body req_a) id_a ta)]
       \<and> webhook_route
             (snd (post_all digest
                     (processSignal r (parseWebhookData (req_body req_a) id_a ta) ta2) mid))
             req_b id_b tb tb2
           = (DuplicateIgnored,
              snd (post_all digest
                     (processSignal r (parseWebhookData (req_body req_a) id_a ta) ta2) mid))"
proof -
  let ?sa = "parseWebhookData (req_body req_a) id_a ta"
  let ?r1 = "processSignal r ?sa ta2"
  have pos: "0 < signalTTL r" using order win by simp
  have own: "ta2 - ta \<le> signalTTL r * 10" using order win pos by simp
  have route: "webhook_route r req_a id_a ta ta2 = (Received id_a, ?r1)"
    by (rule route_stores(1)[OF nd own])
  have st: "(id_a, ?sa) \<in> set (recentSignals ?r1)"
    using route_stores(2)[OF nd own] route by simp
  have ev: "emitted ?r1 = emitted r @ [InvalidSignal ?sa]"
    by (rule processSignal_invalid[OF inv])
  have ttl: "signalTTL ?r1 = signalTTL r" by (simp add: processSignal_fields)
  have ts: "ws_timestamp ?sa = ta"
    by (simp add: parseWebhookData_def extractSignalData_def)
  have dup: "webhook_route (snd (post_all digest ?r1 mid)) req_b id_b tb tb2
               = (DuplicateIgnored, snd (post_all digest ?r1 mid))"
    by (rule stored_signal_blocks[OF st ids times _ same]) (simp_all add: ts ttl order win)
  show ?thesis using route st ev dup by blast
qed

lemma invalid_examples:
  "\<not> isValidSignal (parseWebhookData buy_unlisted ''tv_1'' 1000)"
  "\<not> isValidSignal (parseWebhookData empty_body ''tv_1'' 1000)"
  "\<not> isValidSignal (parseWebhookData hold_btc ''tv_1'' 1000)"
  "isValidSignal (parseWebhookData buy_btc ''tv_1'' 1000)"
  by (simp_all add: isValidSignal_def wh_defs hold_btc_def pattern_defs)

theorem invalid_signal_blocks_window_witness:
  "\<not> isDuplicateSignal default_receiver (parseWebhookData (req_body unsigned_unlisted) ''tv_1'' 1000)
   \<and> \<not> isValidSignal (parseWebhookData (req_body unsigned_unlisted) ''tv_1'' 1000)
   \<and> \<not> isValidSignal (parseWebhookData empty_body ''tv_1'' 1000)
   \<and> \<not> isValidSignal (parseWebhookData hold_btc ''tv_1'' 1000)
   \<and> webhook_route default_receiver unsigned_unlisted ''tv_1'' 1000 1000
       = (Received ''tv_1'',
          processSignal default_receiver (parseWebhookData (req_body unsigned_unlisted) ''tv_1'' 1000) 1000)
   \<and> emitted (processSignal default_receiver
                 (parseWebhookData (req_body unsigned_unlisted) ''tv_1'' 1000) 1000)
       = [InvalidSignal (parseWebhookData (req_body unsigned_unlisted) ''tv_1'' 1000)]
   \<and> fst (webhook_route
            (snd (post_all (\<lambda>secret payload. [])
                    (processSignal default_receiver
                       (parseWebhookData (req_body unsigned_unlisted) ''tv_1'' 1000) 1000) []))
            unsigned_unlisted ''tv_2'' 30000 30000)
       = DuplicateIgnored"
proof -
  let ?sa = "parseWebhookData (req_body unsigned_unlisted) ''tv_1'' 1000"
  have nd: "\<not> isDuplicateSignal default_receiver ?sa"
    by (simp add: isDuplicateSignal_def default_receiver_fields)
  have inv: "\<not> isValidSignal ?sa"
    using invalid_examples(1) by (simp add: unsigned_unlisted_def)
  have same: "same_key ?sa (parseWebhookData (req_body unsigned_unlisted) ''tv_2'' 30000)"
    by (rule same_key_same_body)
  have win: "30000 - 1000 < signalTTL default_receiver"
    by (simp add: default_receiver_fields)
  have em: "emitted default_receiver = []"
    by (simp add: default_receiver_fields)
  note inst = invalid_signal_blocks_window[OF nd inv _ _ _ _ same win,
      where mid="[]" and ?ta2.0=1000 and digest="\<lambda>secret payload. []" and ?tb2.0=30000]
  show ?thesis
    using nd inv invalid_examples(2,3) inst by (simp add: em)
qed

section \<open>Signature check\<close>

lemma bad_signature_rejected:
  assumes "allowedIPs r = [] \<or> req_ip req \<in> set (allowedIPs r)"
    and "webhookSecret r = Some secret" and "secret \<noteq> []"
    and "req_signature req = Some sg" and "sg \<noteq> []"
    and "length (hex_bytes sg) = length (hex_bytes (digest secret (req_body req)))"
    and "hex_bytes sg \<noteq> hex_bytes (digest secret (req_body req))"
  shows "post_webhook digest r req sid t t2 = (InvalidSignature, r)"
  using assms by (auto simp add: post_webhook_def middleware_def verifySignature_def Let_def)

lemma other_length_signature_throws:
  assumes "allowedIPs r = [] \<or> req_ip req \<in> set (allowedIPs r)"
    and "webhookSecret r = Some secret" and "secret \<noteq> []"
    and "req_signature req = Some sg" and "sg \<noteq> []"
    and "length (hex_bytes sg) \<noteq> length (hex_bytes (digest secret (req_body req)))"
  shows "post_webhook digest r req sid t t2 = (ServerError, r)"
  using assms by (auto simp add: post_webhook_def middleware_def verifySignature_def Let_def)

text \<open>
  Claim C3 at a request without the signature header. The receiver has a secret
  configured. \<open>verifySignature\<close> returns \<open>true\<close> for a missing (or empty) header, so
  the middleware passes the request on, whatever the digest function is: the request is
  answered \<open>received\<close>, its signal is stored and the buy event is emitted.
\<close>

theorem missing_signature_passes:
  "str_truthy (webhookSecret secured_receiver)
   \<and> req_signature unsigned_buy = None
   \<and> verifySignature digest secured_receiver (req_body unsigned_buy) (req_signature unsigned_buy)
       = Inr True
   \<and> middleware digest secured_receiver unsigned_buy = None
   \<and> fst (post_webhook digest secured_receiver unsigned_buy ''tv_1'' 1000 1000)
       = Received ''tv_1''
   \<and> emitted (snd (post_webhook digest secured_receiver unsigned_buy ''tv_1'' 1000 1000))
       = [BuySignal (parseWebhookData buy_btc ''tv_1'' 1000)]
   \<and> map fst (recentSignals (snd (post_webhook digest secured_receiver unsigned_buy ''tv_1'' 1000 1000)))
       = [''tv_1'']"
proof -
  have v: "isValidSignal (parseWebhookData buy_btc ''tv_1'' 1000)"
    by (rule invalid_examples(4))
  have a: "ws_action (parseWebhookData buy_btc ''tv_1'' 1000) = Some ''buy''"
    "ws_id (parseWebhookData buy_btc ''tv_1'' 1000) = ''tv_1''"
    "ws_timestamp (parseWebhookData buy_btc ''tv_1'' 1000) = 1000"
    by (simp_all add: wh_defs)
  have s: "webhookSecret secured_receiver = Some ''s3cret''" "allowedIPs secured_receiver = []"
    "recentSignals secured_receiver = []" "emitted secured_receiver = []"
    "signalTTL secured_receiver = 60000"
    by (simp_all add: secured_receiver_def new_receiver_def str_or_def)
  have q: "req_signature unsigned_buy = None" "req_body unsigned_buy = buy_btc"
    by (simp_all add: unsigned_buy_def)
  show ?thesis
    by (simp add: post_webhook_def middleware_def verifySignature_def webhook_route_def
        isDuplicateSignal_def processSignal_def cleanOldSignals_def wemit_def Let_def v a s q)
qed

theorem missing_signature_passes_witness:
  "str_truthy (webhookSecret secured_receiver)
   \<and> req_signature unsigned_buy = None
   \<and> verifySignature (\<lambda>secret payload. ''00'') secured_receiver (req_body unsigned_buy)
         (req_signature unsigned_buy)
       = Inr True
   \<and> fst (post_webhook (\<lambda>secret payload. ''00'') secured_receiver unsigned_buy ''tv_1'' 1000 1000)
       = Received ''tv_1''"
  using missing_signature_passes[of "\<lambda>secret payload. ''00''"] by blast

end
